theory Spec2Isabelle
  imports Complex_Main "HOL-Library.Word" "HOL-Library.Monad_Syntax"
begin

section \<open>Audio processing (src/utils/audioProcessing.js)\<close>

text \<open>
  JavaScript numbers and Float32 samples are modelled as \<^typ>\<open>real\<close>: the arithmetic is
  exact, so Float32 and double rounding and overflow are outside the model, and the inputs
  are finite numbers. The division of the normalisation is the one place of the pipeline
  where finite operands can give NaN or an infinity; its result is a \<open>js_number\<close>.
  Array lengths, indices and loop counters are \<^typ>\<open>nat\<close>; \<open>numFrames\<close>, which the
  source can make negative, is an \<^typ>\<open>int\<close>.
\<close>

subsection \<open>CONFIG\<close>

record config =
  sampleRate :: nat
  duration :: nat
  nMfcc :: nat
  nMels :: nat
  fftSize :: nat
  hopLength :: nat
  nFeatures :: nat

definition CONFIG :: config where
  "CONFIG = \<lparr> sampleRate = 16000, duration = 3, nMfcc = 40, nMels = 128,
              fftSize = 2048, hopLength = 512, nFeatures = 120 \<rparr>"

subsection \<open>Typed-array primitives\<close>

text \<open>\<open>xs.slice(s, e)\<close> for non-negative \<open>s\<close> and \<open>e\<close>: the elements at the indices
  from \<open>s\<close> up to, not including, \<open>min e (length xs)\<close>; empty when \<open>e \<le> s\<close>.\<close>

definition slice :: "'a list \<Rightarrow> nat \<Rightarrow> nat \<Rightarrow> 'a list" where
  "slice xs s e = take (e - s) (drop s xs)"

text \<open>\<open>new Float32Array(n)\<close>: \<open>n\<close> zeros.\<close>

definition newFloat32Array :: "nat \<Rightarrow> real list" where
  "newFloat32Array n = replicate n 0"

text \<open>\<open>dst.set(src)\<close>: copies \<open>src\<close> over the start of \<open>dst\<close>. JavaScript raises a
  RangeError when \<open>src\<close> is longer than \<open>dst\<close>; the only call site is inside the branch
  \<open>channelData.length < targetLength\<close>, where \<open>dst\<close> has \<open>targetLength\<close> elements.\<close>

definition float32_set :: "real list \<Rightarrow> real list \<Rightarrow> real list" where
  "float32_set dst src = src @ drop (length src) dst"

subsection \<open>audioBufferToFloat32\<close>

text \<open>The argument is \<open>audioBuffer.getChannelData(0)\<close>.\<close>

definition targetLength :: nat where
  "targetLength = sampleRate CONFIG * duration CONFIG"

definition audioBufferToFloat32 :: "real list \<Rightarrow> real list" where
  "audioBufferToFloat32 channelData =
     (if length channelData > targetLength then slice channelData 0 targetLength
      else if length channelData < targetLength
        then float32_set (newFloat32Array targetLength) channelData
      else channelData)"

subsection \<open>extractMFCC: segmentation into frames\<close>

text \<open>\<open>Math.floor((audioData.length - CONFIG.fftSize) / CONFIG.hopLength) + 1\<close>;
  negative when the signal is more than one hop shorter than a frame.\<close>

definition numFrames :: "real list \<Rightarrow> int" where
  "numFrames audioData =
     \<lfloor>(real (length audioData) - real (fftSize CONFIG)) / real (hopLength CONFIG)\<rfloor> + 1"

text \<open>The frame of iteration \<open>i\<close>: \<open>frameStart\<close>, \<open>frameEnd\<close> and the slice between them.\<close>

definition frame_at :: "real list \<Rightarrow> nat \<Rightarrow> real list" where
  "frame_at audioData i =
     (let frameStart = i * hopLength CONFIG;
          frameEnd = min (frameStart + fftSize CONFIG) (length audioData)
      in slice audioData frameStart frameEnd)"

subsection \<open>extractMFCC: the features of one frame\<close>

text \<open>The innermost loop, \<open>for (k = start; k < end; k++) sum += Math.abs(frame[k])\<close>
  (\<open>endv\<close> and \<open>sumv\<close> stand for the source's \<open>end\<close> and \<open>sum\<close>).
  Every call has \<open>end \<le> frame.length\<close>, so \<open>frame[k]\<close> is always a sample.\<close>

function sum_abs_loop :: "real list \<Rightarrow> nat \<Rightarrow> nat \<Rightarrow> real \<Rightarrow> real" where
  "sum_abs_loop frame k endv sumv =
     (if k < endv then sum_abs_loop frame (k + 1) endv (sumv + \<bar>frame ! k\<bar>) else sumv)"
  by pat_completeness auto
termination
  by (relation "measure (\<lambda>(frame, k, endv, sumv). endv - k)") auto

text \<open>The value written to \<open>frameFeatures[j]\<close>: \<open>binSize\<close>, \<open>start\<close>, \<open>end\<close>, the sum and
  \<open>sum / binSize\<close>. In JavaScript \<open>sum / binSize\<close> is NaN when \<open>binSize\<close> is 0 (a frame of
  fewer than \<open>nMfcc\<close> samples), where HOL's division gives 0; lemma \<open>length_frame_at\<close>
  below shows that every frame of the loop has \<open>fftSize\<close> samples, so \<open>binSize\<close> is 51.\<close>

definition bandEnergy :: "real list \<Rightarrow> nat \<Rightarrow> real" where
  "bandEnergy frame j =
     (let binSize = length frame div nMfcc CONFIG;
          start = j * binSize;
          endv = min (start + binSize) (length frame);
          sumv = sum_abs_loop frame start endv 0
      in sumv / real binSize)"

text \<open>The body of the loop over the bands \<open>j\<close>: three writes into \<open>frameFeatures\<close>, the
  second and third reading what was written before. A write outside a typed array is
  ignored, as \<open>list_update\<close> does.\<close>

definition band_step :: "real list \<Rightarrow> nat \<Rightarrow> real list \<Rightarrow> real list" where
  "band_step frame j frameFeatures =
     (let ff1 = frameFeatures[j := bandEnergy frame j];
          ff2 = ff1[j + nMfcc CONFIG := (if j > 0 then ff1 ! j - ff1 ! (j - 1) else 0)];
          ff3 = ff2[j + 2 * nMfcc CONFIG :=
                  (if j > 0 then ff2 ! (j + nMfcc CONFIG) - ff2 ! (j - 1 + nMfcc CONFIG)
                   else 0)]
      in ff3)"

function band_loop :: "real list \<Rightarrow> nat \<Rightarrow> real list \<Rightarrow> real list" where
  "band_loop frame j frameFeatures =
     (if j < nMfcc CONFIG then band_loop frame (j + 1) (band_step frame j frameFeatures)
      else frameFeatures)"
  by pat_completeness auto
termination
  by (relation "measure (\<lambda>(frame, j, frameFeatures). nMfcc CONFIG - j)") auto

definition frameFeatures :: "real list \<Rightarrow> real list" where
  "frameFeatures frame = band_loop frame 0 (newFloat32Array (nFeatures CONFIG))"

subsection \<open>extractMFCC: the feature sequence\<close>

text \<open>The loop over the frames, \<open>for (i = 0; i < numFrames; i++)\<close>, pushing one feature
  vector per frame.\<close>

function frame_loop :: "real list \<Rightarrow> int \<Rightarrow> nat \<Rightarrow> real list list \<Rightarrow> real list list" where
  "frame_loop audioData n i features =
     (if int i < n
      then frame_loop audioData n (i + 1) (features @ [frameFeatures (frame_at audioData i)])
      else features)"
  by pat_completeness auto
termination
  by (relation "measure (\<lambda>(audioData, n, i, features). nat (n - int i))") auto

definition targetFrames :: nat where
  "targetFrames = 94"

text \<open>\<open>while (features.length < targetFrames) features.push(new Array(nFeatures).fill(0))\<close>\<close>

function pad_loop :: "real list list \<Rightarrow> real list list" where
  "pad_loop features =
     (if length features < targetFrames
      then pad_loop (features @ [replicate (nFeatures CONFIG) 0])
      else features)"
  by pat_completeness auto
termination
  by (relation "measure (\<lambda>features. targetFrames - length features)") auto

text \<open>\<open>if (features.length > targetFrames) features.length = targetFrames\<close>\<close>

definition truncate_frames :: "real list list \<Rightarrow> real list list" where
  "truncate_frames features =
     (if length features > targetFrames then take targetFrames features else features)"

text \<open>The array \<open>features\<close> after the loop over the frames, and as it is when the tensor
  is built from it.\<close>

definition naturalFeatures :: "real list \<Rightarrow> real list list" where
  "naturalFeatures channelData =
     (let audioData = audioBufferToFloat32 channelData
      in frame_loop audioData (numFrames audioData) 0 [])"

definition featureSequence :: "real list \<Rightarrow> real list list" where
  "featureSequence channelData = truncate_frames (pad_loop (naturalFeatures channelData))"

subsection \<open>extractMFCC: the tensor and its normalisation\<close>

text \<open>
  A tensor of rank 3 is a nested list; \<open>tf.tensor3d([features])\<close> has shape
  \<open>[1, 94, 120]\<close>. The TensorFlow.js operations are modelled on their documented
  behaviour: \<open>mean([1], true)\<close> reduces over axis 1 and keeps it with size 1,
  \<open>tf.moments(x, [1], true).variance\<close> is the mean over axis 1 of the squared deviation
  from that mean, and the binary operations broadcast an operand whose axis 1 has size 1.
  The quotient of two finite numbers is a finite number when the divisor is not zero,
  NaN for \<open>0 / 0\<close>, and an infinity with the sign of the dividend otherwise (the zero
  divisor being the \<open>+0\<close> that a square root or a sum of non-negative numbers gives).
  The Float32 rounding of these operations is not modelled: the values proved below of
  normalised entries are those of columns of zeros, where Float32 arithmetic is exact.
\<close>

datatype js_number = Finite real | NaN | PosInfinity | NegInfinity

definition js_div :: "real \<Rightarrow> real \<Rightarrow> js_number" where
  "js_div a b =
     (if b \<noteq> 0 then Finite (a / b)
      else if a = 0 then NaN
      else if 0 < a then PosInfinity
      else NegInfinity)"

type_synonym tensor3d = "real list list list"

definition tensor3d :: "real list list list \<Rightarrow> tensor3d" where
  "tensor3d values = values"

definition column :: "real list list \<Rightarrow> nat \<Rightarrow> real list" where
  "column m c = map (\<lambda>row. row ! c) m"

definition ncols :: "real list list \<Rightarrow> nat" where
  "ncols m = (case m of [] \<Rightarrow> 0 | row # _ \<Rightarrow> length row)"

definition tf_mean_axis1 :: "tensor3d \<Rightarrow> tensor3d" where
  "tf_mean_axis1 t =
     map (\<lambda>m. [map (\<lambda>c. sum_list (column m c) / real (length m)) [0..<ncols m]]) t"

fun broadcast_rows :: "(real \<Rightarrow> real \<Rightarrow> 'a) \<Rightarrow> real list list \<Rightarrow> real list list
    \<Rightarrow> 'a list list" where
  "broadcast_rows f m [r] = map (\<lambda>row. map2 f row r) m"
| "broadcast_rows f m k = map2 (map2 f) m k"

definition tf_sub :: "tensor3d \<Rightarrow> tensor3d \<Rightarrow> tensor3d" where
  "tf_sub t u = map2 (broadcast_rows (-)) t u"

definition tf_div :: "tensor3d \<Rightarrow> tensor3d \<Rightarrow> js_number list list list" where
  "tf_div t u = map2 (broadcast_rows js_div) t u"

definition tf_square :: "tensor3d \<Rightarrow> tensor3d" where
  "tf_square t = map (map (map (\<lambda>x. x * x))) t"

definition tf_sqrt :: "tensor3d \<Rightarrow> tensor3d" where
  "tf_sqrt t = map (map (map sqrt)) t"

definition tf_add_scalar :: "tensor3d \<Rightarrow> real \<Rightarrow> tensor3d" where
  "tf_add_scalar t e = map (map (map (\<lambda>x. x + e))) t"

definition tf_moments_variance :: "tensor3d \<Rightarrow> tensor3d" where
  "tf_moments_variance t = tf_mean_axis1 (tf_square (tf_sub t (tf_mean_axis1 t)))"

text \<open>Lines 218 to 220: \<open>mean\<close>, \<open>std\<close> and \<open>normalized\<close>.\<close>

definition normalizeTensor :: "tensor3d \<Rightarrow> js_number list list list" where
  "normalizeTensor tensor =
     (let mean = tf_mean_axis1 tensor;
          std = tf_sqrt (tf_moments_variance tensor);
          normalized = tf_div (tf_sub tensor mean) (tf_add_scalar std (1 / 10 ^ 8))
      in normalized)"

definition extractMFCC :: "real list \<Rightarrow> js_number list list list" where
  "extractMFCC channelData = normalizeTensor (tensor3d [featureSequence channelData])"

section \<open>WAV encoding (src/unnamed/part_002, float32ToWav)\<close>

text \<open>
  The \<open>ArrayBuffer\<close> behind the \<open>DataView\<close> is a list of bytes. A \<open>DataView\<close> setter raises
  a RangeError when the bytes it writes do not fit in the buffer: the setters return
  \<open>None\<close> then. All multi-byte writes of \<open>float32ToWav\<close> pass \<open>littleEndian = true\<close>.
\<close>

type_synonym byte = "8 word"

text \<open>The \<open>k\<close> low bytes of \<open>v\<close>, least significant first.\<close>

definition le_bytes :: "nat \<Rightarrow> nat \<Rightarrow> byte list" where
  "le_bytes k v = map (\<lambda>i. word_of_nat (v div 256 ^ i mod 256)) [0..<k]"

definition store :: "byte list \<Rightarrow> nat \<Rightarrow> byte list \<Rightarrow> byte list option" where
  "store view byteOffset bs =
     (if byteOffset + length bs \<le> length view
      then Some (take byteOffset view @ bs @ drop (byteOffset + length bs) view)
      else None)"

text \<open>The setters convert their argument with ToUint8, ToUint16 and ToUint32 (modulo
  \<open>2^8\<close>, \<open>2^16\<close> and \<open>2^32\<close>), and \<open>setInt16\<close> with ToInt16: truncation towards zero, then
  modulo \<open>2^16\<close>, stored in two's complement.\<close>

definition setUint8 :: "byte list \<Rightarrow> nat \<Rightarrow> nat \<Rightarrow> byte list option" where
  "setUint8 view byteOffset v = store view byteOffset (le_bytes 1 (v mod 2 ^ 8))"

definition setUint16 :: "byte list \<Rightarrow> nat \<Rightarrow> nat \<Rightarrow> byte list option" where
  "setUint16 view byteOffset v = store view byteOffset (le_bytes 2 (v mod 2 ^ 16))"

definition setUint32 :: "byte list \<Rightarrow> nat \<Rightarrow> nat \<Rightarrow> byte list option" where
  "setUint32 view byteOffset v = store view byteOffset (le_bytes 4 (v mod 2 ^ 32))"

definition js_trunc :: "real \<Rightarrow> int" where
  "js_trunc x = (if x < 0 then - \<lfloor>- x\<rfloor> else \<lfloor>x\<rfloor>)"

definition setInt16 :: "byte list \<Rightarrow> nat \<Rightarrow> real \<Rightarrow> byte list option" where
  "setInt16 view byteOffset x = store view byteOffset (le_bytes 2 (nat (js_trunc x mod 2 ^ 16)))"

text \<open>\<open>writeString\<close>: one \<open>setUint8\<close> per character, at \<open>offset + i\<close>.\<close>

fun writeString :: "byte list \<Rightarrow> nat \<Rightarrow> string \<Rightarrow> byte list option" where
  "writeString view offset [] = Some view"
| "writeString view offset (c # cs) =
     do { view' \<leftarrow> setUint8 view offset (of_char c); writeString view' (offset + 1) cs }"

text \<open>The loop over the samples: clamp, scale, \<open>setInt16\<close>, and \<open>offset += 2\<close>.\<close>

fun sample_loop :: "byte list \<Rightarrow> nat \<Rightarrow> real list \<Rightarrow> byte list option" where
  "sample_loop view offset [] = Some view"
| "sample_loop view offset (x # xs) =
     (let s = max (- 1) (min 1 x)
      in do { view' \<leftarrow> setInt16 view offset (if s < 0 then s * 32768 else s * 32767);
              sample_loop view' (offset + 2) xs })"

text \<open>The result is the content of the buffer, which the source wraps in a \<open>Blob\<close>;
  \<open>sample_rate\<close> is the parameter \<open>sampleRate\<close>.\<close>

definition float32ToWav :: "real list \<Rightarrow> nat \<Rightarrow> byte list option" where
  "float32ToWav samples sample_rate =
     do {
       let buffer = replicate (44 + length samples * 2) 0;
       view \<leftarrow> writeString buffer 0 ''RIFF'';
       view \<leftarrow> setUint32 view 4 (36 + length samples * 2);
       view \<leftarrow> writeString view 8 ''WAVE'';
       view \<leftarrow> writeString view 12 ''fmt '';
       view \<leftarrow> setUint32 view 16 16;
       view \<leftarrow> setUint16 view 20 1;
       view \<leftarrow> setUint16 view 22 1;
       view \<leftarrow> setUint32 view 24 sample_rate;
       view \<leftarrow> setUint32 view 28 (sample_rate * 2);
       view \<leftarrow> setUint16 view 32 2;
       view \<leftarrow> setUint16 view 34 16;
       view \<leftarrow> writeString view 36 ''data'';
       view \<leftarrow> setUint32 view 40 (length samples * 2);
       sample_loop view 44 samples
     }"

section \<open>Model loader (src/unnamed/part_001)\<close>

text \<open>
  The module variables are the fields of a record, which every function takes and
  returns. What the network and TensorFlow.js answer during one call of \<open>loadModels\<close> is
  an \<open>env\<close>: whether \<open>tf.ready()\<close> rejects (with which message), what the two \<open>fetch\<close>
  calls give, and for each \<open>tf.loadLayersModel\<close> either the message of the error it
  throws or the model. A model is identified by the path it was loaded from. Logging is
  not modelled. Characters outside ASCII are written as their UTF-8 bytes.
\<close>

datatype layers_model = LayersModel string

record spoofing_config =
  threshold :: real
  labels :: "string list"

record registry =
  languageModel :: "layers_model option"
  accentModel :: "layers_model option"
  spoofingModel :: "layers_model option"
  modelsLoaded :: bool
  languageLabels :: "string list option"
  spoofingConfig :: "spoofing_config option"

definition initial_registry :: registry where
  "initial_registry = \<lparr> languageModel = None, accentModel = None, spoofingModel = None,
      modelsLoaded = False, languageLabels = None, spoofingConfig = None \<rparr>"

text \<open>A \<open>fetch\<close> followed by \<open>response.json()\<close>: \<open>fetch\<close> rejects, or the response is
  not ok, or it is ok and parses to a value, or it is ok and \<open>json()\<close> rejects.\<close>

datatype 'a fetched = FetchRejected | ResponseNotOk | ResponseJson 'a | JsonRejected

record env =
  tf_ready :: "string option"
  fetch_languageLabels :: "string list fetched"
  fetch_spoofingConfig :: "spoofing_config fetched"
  load_language :: "string + layers_model"
  load_accent :: "string + layers_model"
  load_spoofing :: "string + layers_model"

datatype load_error = Error string

datatype loaded =
    AlreadyLoaded "layers_model option" "layers_model option" "string list option"
  | Loaded "layers_model option" "layers_model option" "layers_model option"
      "string list option" "spoofing_config option"

definition defaultLabels :: "string list" where
  "defaultLabels = [''Espa'' @ [CHR 0xC3, CHR 0xB1] @ ''ol'', ''Ingl'' @ [CHR 0xC3, CHR 0xA9] @ ''s'',
     ''Franc'' @ [CHR 0xC3, CHR 0xA9] @ ''s'', ''Alem'' @ [CHR 0xC3, CHR 0xA1] @ ''n'']"

definition defaultSpoofingConfig :: spoofing_config where
  "defaultSpoofingConfig = \<lparr> threshold = 1 / 2, labels = [''human'', ''spoof''] \<rparr>"

text \<open>\<open>loadLabels\<close> and \<open>loadSpoofingConfig\<close>: the value of the response when it is ok, the
  default when \<open>fetch\<close> or \<open>response.json()\<close> throws, and no assignment when the response
  is not ok.\<close>

definition loadLabels :: "env \<Rightarrow> registry \<Rightarrow> registry" where
  "loadLabels e s =
     (case fetch_languageLabels e of
        ResponseJson v \<Rightarrow> s\<lparr>languageLabels := Some v\<rparr>
      | ResponseNotOk \<Rightarrow> s
      | FetchRejected \<Rightarrow> s\<lparr>languageLabels := Some defaultLabels\<rparr>
      | JsonRejected \<Rightarrow> s\<lparr>languageLabels := Some defaultLabels\<rparr>)"

definition loadSpoofingConfig :: "env \<Rightarrow> registry \<Rightarrow> registry" where
  "loadSpoofingConfig e s =
     (case fetch_spoofingConfig e of
        ResponseJson v \<Rightarrow> s\<lparr>spoofingConfig := Some v\<rparr>
      | ResponseNotOk \<Rightarrow> s
      | FetchRejected \<Rightarrow> s\<lparr>spoofingConfig := Some defaultSpoofingConfig\<rparr>
      | JsonRejected \<Rightarrow> s\<lparr>spoofingConfig := Some defaultSpoofingConfig\<rparr>)"

text \<open>\<open>message.includes(p)\<close>: \<open>p\<close> occurs in \<open>message\<close> as a contiguous substring.\<close>

fun startsWith :: "string \<Rightarrow> string \<Rightarrow> bool" where
  "startsWith s [] = True"
| "startsWith [] (p # ps) = False"
| "startsWith (c # cs) (p # ps) = (c = p \<and> startsWith cs ps)"

fun includes_str :: "string \<Rightarrow> string \<Rightarrow> bool" where
  "includes_str [] p = startsWith [] p"
| "includes_str (c # cs) p = (startsWith (c # cs) p \<or> includes_str cs p)"

definition notFoundMessage :: string where
  "notFoundMessage = ''No se encontraron los modelos. Aseg'' @ [CHR 0xC3, CHR 0xBA]
     @ ''rate de haber entrenado y convertido los modelos a TensorFlow.js. ''
     @ ''Los archivos deben estar en /public/models/language/''"

text \<open>The outer \<open>catch\<close> block, which throws a new error made from the message of the
  error caught.\<close>

definition outer_catch :: "string \<Rightarrow> load_error" where
  "outer_catch message =
     (if includes_str message ''404'' then Error notFoundMessage
      else Error (''Error cargando modelos: '' @ message))"

definition loadModels :: "env \<Rightarrow> registry \<Rightarrow> (load_error + loaded) \<times> registry" where
  "loadModels e s =
     (if modelsLoaded s
      then (Inr (AlreadyLoaded (languageModel s) (accentModel s) (languageLabels s)), s)
      else case tf_ready e of
        Some message \<Rightarrow> (Inl (outer_catch message), s)
      | None \<Rightarrow>
          let s1 = loadLabels e s;
              s2 = loadSpoofingConfig e s1
          in case load_language e of
               Inl message \<Rightarrow>
                 (Inl (outer_catch (''Error cargando modelo de idioma: '' @ message)), s2)
             | Inr m \<Rightarrow>
                 let s3 = s2\<lparr>languageModel := Some m\<rparr>;
                     s4 = (case load_accent e of
                             Inr a \<Rightarrow> s3\<lparr>accentModel := Some a\<rparr>
                           | Inl _ \<Rightarrow> s3\<lparr>accentModel := None\<rparr>);
                     s5 = (case load_spoofing e of
                             Inr a \<Rightarrow> s4\<lparr>spoofingModel := Some a\<rparr>
                           | Inl _ \<Rightarrow> s4\<lparr>spoofingModel := None\<rparr>);
                     s6 = s5\<lparr>modelsLoaded := True\<rparr>
                 in (Inr (Loaded (languageModel s6) (accentModel s6) (spoofingModel s6)
                            (languageLabels s6) (spoofingConfig s6)), s6))"

section \<open>Notions used to state the properties\<close>

text \<open>The frame count as the specification words it: \<open>floor((len - frameSize) / hopSize) + 1\<close>,
  clamped to be at least 0.\<close>

definition spec_frameCount :: "nat \<Rightarrow> nat \<Rightarrow> nat \<Rightarrow> nat" where
  "spec_frameCount len frameSize hopSize =
     nat (max 0 (\<lfloor>(real len - real frameSize) / real hopSize\<rfloor> + 1))"

text \<open>The mean absolute amplitude of a run of samples.\<close>

definition mean_abs :: "real list \<Rightarrow> real" where
  "mean_abs xs = sum_list (map abs xs) / real (length xs)"

text \<open>The bins of a frame as the specification words them: \<open>bandCount\<close> contiguous bins of
  width \<open>floor(frameLength / bandCount)\<close>, the final bin running to the end of the frame.\<close>

definition spec_bin :: "real list \<Rightarrow> nat \<Rightarrow> real list" where
  "spec_bin frame j =
     (let binWidth = length frame div nMfcc CONFIG
      in if j = nMfcc CONFIG - 1 then drop (j * binWidth) frame
         else slice frame (j * binWidth) (j * binWidth + binWidth))"

definition spec_bandEnergy :: "real list \<Rightarrow> nat \<Rightarrow> real" where
  "spec_bandEnergy frame j = mean_abs (spec_bin frame j)"

text \<open>The band-to-band difference of a vector: \<open>xs[j] - xs[j - 1]\<close> for \<open>j > 0\<close>, and 0 at
  \<open>j = 0\<close>.\<close>

definition band_diff :: "real list \<Rightarrow> real list" where
  "band_diff xs = map (\<lambda>j. if j > 0 then xs ! j - xs ! (j - 1) else 0) [0..<length xs]"

text \<open>The invariant of the loop over the bands, after \<open>j\<close> iterations.\<close>

definition band_inv :: "real list \<Rightarrow> nat \<Rightarrow> real list \<Rightarrow> bool" where
  "band_inv frame j ff \<longleftrightarrow>
     length ff = 120 \<and>
     (\<forall>m<j. ff ! m = bandEnergy frame m
          \<and> ff ! (m + 40) = (if m > 0 then bandEnergy frame m - bandEnergy frame (m - 1) else 0)
          \<and> ff ! (m + 80) = (if m > 0 then ff ! (m + 40) - ff ! (m - 1 + 40) else 0))"

text \<open>Mean, population variance and standard deviation of a column of a feature sequence.\<close>

definition col_mean :: "real list list \<Rightarrow> nat \<Rightarrow> real" where
  "col_mean m c = sum_list (column m c) / real (length m)"

definition col_variance :: "real list list \<Rightarrow> nat \<Rightarrow> real" where
  "col_variance m c = (\<Sum>x\<leftarrow>column m c. (x - col_mean m c)\<^sup>2) / real (length m)"

definition col_std :: "real list list \<Rightarrow> nat \<Rightarrow> real" where
  "col_std m c = sqrt (col_variance m c)"

definition constantColumn :: "real list list \<Rightarrow> nat \<Rightarrow> bool" where
  "constantColumn m c \<longleftrightarrow> (\<forall>row\<in>set m. row ! c = hd m ! c)"

definition hasConstantColumn :: "real list list \<Rightarrow> bool" where
  "hasConstantColumn m \<longleftrightarrow> (\<exists>c<ncols m. constantColumn m c)"

definition rectangular :: "real list list \<Rightarrow> nat \<Rightarrow> nat \<Rightarrow> bool" where
  "rectangular m T F \<longleftrightarrow> length m = T \<and> (\<forall>row\<in>set m. length row = F)"

text \<open>The deviations of the entries from the means of their columns.\<close>

definition deviations :: "real list list \<Rightarrow> nat \<Rightarrow> real list list" where
  "deviations m F = map (\<lambda>row. map (\<lambda>c. row ! c - col_mean m c) [0..<F]) m"

text \<open>The bytes of an ASCII string, of a 16-bit two's complement integer (low byte
  first), and the number that little-endian bytes stand for.\<close>

definition ascii :: "string \<Rightarrow> byte list" where
  "ascii s = map (\<lambda>c. word_of_nat (of_char c)) s"

definition int16_le :: "int \<Rightarrow> byte list" where
  "int16_le v = le_bytes 2 (nat (v mod 2 ^ 16))"

definition le_value :: "byte list \<Rightarrow> nat" where
  "le_value bs = foldr (\<lambda>b acc. unat b + 256 * acc) bs 0"

text \<open>The quantisation as the specification words it: clamp to \<open>[-1, 1]\<close>, then scale by
  32767 if non-negative and by 32768 if negative, keeping the integer part.\<close>

definition spec_quantize :: "real \<Rightarrow> int" where
  "spec_quantize x =
     (let clamped = max (- 1) (min 1 x)
      in js_trunc (if 0 \<le> clamped then clamped * 32767 else clamped * 32768))"

text \<open>The canonical 44-byte RIFF/WAVE header of \<open>n\<close> mono 16-bit PCM samples: ChunkID,
  ChunkSize, Format, Subchunk1ID, Subchunk1Size 16, AudioFormat 1 (PCM), NumChannels 1,
  SampleRate, ByteRate, BlockAlign 2, BitsPerSample 16, Subchunk2ID, Subchunk2Size.\<close>

definition spec_wav_header :: "nat \<Rightarrow> nat \<Rightarrow> byte list" where
  "spec_wav_header n sample_rate =
     ascii ''RIFF'' @ le_bytes 4 (36 + 2 * n) @ ascii ''WAVE''
     @ ascii ''fmt '' @ le_bytes 4 16 @ le_bytes 2 1 @ le_bytes 2 1
     @ le_bytes 4 sample_rate @ le_bytes 4 (sample_rate * 2) @ le_bytes 2 2 @ le_bytes 2 16
     @ ascii ''data'' @ le_bytes 4 (2 * n)"

section \<open>Properties of the audio pipeline\<close>

lemma CONFIG_simps [simp]:
  "sampleRate CONFIG = 16000" "duration CONFIG = 3" "nMfcc CONFIG = 40"
  "fftSize CONFIG = 2048" "hopLength CONFIG = 512" "nFeatures CONFIG = 120"
  by (simp_all add: CONFIG_def)

text \<open>The loops are unfolded one step at a time, where a proof asks for it.\<close>

declare sum_abs_loop.simps [simp del] band_loop.simps [simp del]
  frame_loop.simps [simp del] pad_loop.simps [simp del]

lemma targetLength_eq: "targetLength = 48000"
  by (simp add: targetLength_def CONFIG_def)

lemma audioBufferToFloat32_eq:
  "audioBufferToFloat32 channelData =
     take 48000 channelData @ replicate (48000 - length channelData) 0"
  by (simp add: audioBufferToFloat32_def targetLength_eq slice_def float32_set_def
      newFloat32Array_def)

lemma length_audioBufferToFloat32: "length (audioBufferToFloat32 channelData) = 48000"
  by (simp add: audioBufferToFloat32_eq)

text \<open>
  Claim C2. For every channel-data array, \<open>audioBufferToFloat32\<close> returns exactly
  \<open>sampleRate \<times> duration = 16000 \<times> 3 = 48000\<close> samples: a longer input is cut down to its
  first 48000 samples, a shorter input is followed by zeros up to 48000 (so an input of
  24000 samples gives an output whose samples 24000 to 47999 are all zero), and an input of
  exactly 48000 samples is returned unchanged.
\<close>

theorem audioBufferToFloat32_length_normalised:
  "sampleRate CONFIG * duration CONFIG = 48000
   \<and> length (audioBufferToFloat32 channelData) = 48000
   \<and> (length channelData > 48000 \<longrightarrow>
        audioBufferToFloat32 channelData = take 48000 channelData)
   \<and> (length channelData < 48000 \<longrightarrow>
        audioBufferToFloat32 channelData
          = channelData @ replicate (48000 - length channelData) 0)
   \<and> (length channelData = 24000 \<longrightarrow>
        take 24000 (audioBufferToFloat32 channelData) = channelData
        \<and> drop 24000 (audioBufferToFloat32 channelData) = replicate 24000 0)
   \<and> (length channelData = 48000 \<longrightarrow> audioBufferToFloat32 channelData = channelData)"
  by (simp add: audioBufferToFloat32_eq CONFIG_def)

theorem audioBufferToFloat32_length_normalised_witness:
  "length (audioBufferToFloat32 (replicate 50000 1)) = 48000
   \<and> audioBufferToFloat32 (replicate 50000 1) = take 48000 (replicate 50000 1)
   \<and> audioBufferToFloat32 (replicate 100 1) = replicate 100 1 @ replicate 47900 0
   \<and> drop 24000 (audioBufferToFloat32 (replicate 24000 1)) = replicate 24000 0
   \<and> audioBufferToFloat32 (replicate 48000 1) = replicate 48000 1"
  using audioBufferToFloat32_length_normalised [of "replicate 50000 1"]
    audioBufferToFloat32_length_normalised [of "replicate 100 1"]
    audioBufferToFloat32_length_normalised [of "replicate 24000 1"]
    audioBufferToFloat32_length_normalised [of "replicate 48000 1"]
  by simp

subsection \<open>Segmentation\<close>

lemma numFrames_div: "numFrames audioData = (int (length audioData) - 2048) div 512 + 1"
proof -
  have "(real (length audioData) - 2048) / 512 = real_of_int (int (length audioData) - 2048) / real_of_int 512"
    by simp
  then show ?thesis
    unfolding numFrames_def by (simp only: CONFIG_simps floor_divide_of_int_eq of_nat_numeral)
qed

lemma spec_frameCount_numFrames:
  "spec_frameCount (length audioData) (fftSize CONFIG) (hopLength CONFIG) = nat (numFrames audioData)"
  by (simp add: spec_frameCount_def numFrames_def)

lemma frame_at_eq: "frame_at audioData i = take 2048 (drop (i * 512) audioData)"
  by (simp add: frame_at_def slice_def Let_def min_def)

lemma frame_fits:
  assumes "int i < numFrames audioData"
  shows "i * 512 + 2048 \<le> length audioData"
proof -
  from assms have "int i \<le> (int (length audioData) - 2048) div 512"
    by (simp add: numFrames_div)
  then have "int i * 512 \<le> int (length audioData) - 2048"
    by linarith
  then show ?thesis by linarith
qed

lemma length_frame_at:
  "int i < numFrames audioData \<Longrightarrow> length (frame_at audioData i) = 2048"
  using frame_fits[of i audioData] by (simp add: frame_at_eq)

lemma numFrames_short: "length audioData < 2048 \<Longrightarrow> numFrames audioData \<le> 0"
  by (simp add: numFrames_div)

lemma numFrames_normalised: "numFrames (audioBufferToFloat32 channelData) = 90"
  by (simp add: numFrames_div length_audioBufferToFloat32)

lemma frame_loop_eq:
  "frame_loop audioData n i features =
     features @ map (\<lambda>i. frameFeatures (frame_at audioData i)) [i..<nat n]"
proof (induction audioData n i features rule: frame_loop.induct)
  case (1 audioData n i features)
  show ?case
  proof (cases "int i < n")
    case True
    then have "i < nat n" by simp
    then have "[i..<nat n] = i # [Suc i..<nat n]" by (simp add: upt_conv_Cons)
    with True 1 show ?thesis by (simp add: frame_loop.simps [of audioData n i features])
  next
    case False
    then show ?thesis by (simp add: frame_loop.simps [of audioData n i features])
  qed
qed

lemma pad_loop_eq:
  "pad_loop features =
     features @ replicate (94 - length features) (replicate 120 0)"
proof (induction features rule: pad_loop.induct)
  case (1 features)
  show ?case
  proof (cases "length features < 94")
    case True
    then have "94 - length features = Suc (94 - Suc (length features))" by simp
    with True 1 show ?thesis
      by (simp add: pad_loop.simps [of features] targetFrames_def replicate_app_Cons_same
          del: replicate_Suc flip: replicate_Suc)
  next
    case False
    then show ?thesis by (simp add: pad_loop.simps [of features] targetFrames_def)
  qed
qed

lemma naturalFeatures_eq:
  "naturalFeatures channelData =
     map (\<lambda>i. frameFeatures (frame_at (audioBufferToFloat32 channelData) i)) [0..<90]"
  by (simp add: naturalFeatures_def Let_def frame_loop_eq numFrames_normalised)

lemma truncate_pad_eq:
  "truncate_frames (pad_loop features) =
     take 94 features @ replicate (94 - length features) (replicate 120 0)"
  by (simp add: truncate_frames_def pad_loop_eq targetFrames_def)

lemma featureSequence_eq:
  "featureSequence channelData = naturalFeatures channelData @ replicate 4 (replicate 120 0)"
  by (simp add: featureSequence_def truncate_pad_eq naturalFeatures_eq)

text \<open>
  Claim C5. For every signal, the loop over the frames runs
  \<open>floor((len - frameSize) / hopSize) + 1\<close> times, clamped to be at least 0, with
  \<open>frameSize = fftSize = 2048\<close> and \<open>hopSize = hopLength = 512\<close>; it visits the frames in
  signal order; frame \<open>i\<close> starts at sample \<open>i \<times> hopSize\<close> and holds the \<open>frameSize\<close> samples
  from there; and a signal shorter than \<open>frameSize\<close> yields no frame (and no error: the
  loop is a total function).
\<close>

theorem frame_segmentation:
  "length (frame_loop audioData (numFrames audioData) 0 [])
     = spec_frameCount (length audioData) (fftSize CONFIG) (hopLength CONFIG)
   \<and> frame_loop audioData (numFrames audioData) 0 []
     = map (\<lambda>i. frameFeatures (frame_at audioData i))
         [0..<spec_frameCount (length audioData) (fftSize CONFIG) (hopLength CONFIG)]
   \<and> (\<forall>i < spec_frameCount (length audioData) (fftSize CONFIG) (hopLength CONFIG).
        i * hopLength CONFIG + fftSize CONFIG \<le> length audioData
        \<and> frame_at audioData i = take (fftSize CONFIG) (drop (i * hopLength CONFIG) audioData)
        \<and> length (frame_at audioData i) = fftSize CONFIG
        \<and> (\<forall>k < fftSize CONFIG. frame_at audioData i ! k = audioData ! (i * hopLength CONFIG + k)))
   \<and> (length audioData < fftSize CONFIG \<longrightarrow>
        spec_frameCount (length audioData) (fftSize CONFIG) (hopLength CONFIG) = 0
        \<and> frame_loop audioData (numFrames audioData) 0 [] = [])"
proof -
  let ?n = "spec_frameCount (length audioData) (fftSize CONFIG) (hopLength CONFIG)"
  have n: "?n = nat (numFrames audioData)" by (rule spec_frameCount_numFrames)
  have loop: "frame_loop audioData (numFrames audioData) 0 []
      = map (\<lambda>i. frameFeatures (frame_at audioData i)) [0..<?n]"
    by (simp only: frame_loop_eq n append_Nil)
  have frames: "i * hopLength CONFIG + fftSize CONFIG \<le> length audioData
        \<and> frame_at audioData i = take (fftSize CONFIG) (drop (i * hopLength CONFIG) audioData)
        \<and> length (frame_at audioData i) = fftSize CONFIG
        \<and> (\<forall>k < fftSize CONFIG. frame_at audioData i ! k = audioData ! (i * hopLength CONFIG + k))"
    if "i < ?n" for i
  proof -
    from that [unfolded n] have lt: "int i < numFrames audioData" by simp
    from frame_fits[OF lt] show ?thesis
      by (simp add: frame_at_eq)
  qed
  have short: "?n = 0" if "length audioData < fftSize CONFIG"
    unfolding n using that numFrames_short[of audioData] by simp
  have len: "length (frame_loop audioData (numFrames audioData) 0 []) = ?n"
    unfolding loop by simp
  have none: "frame_loop audioData (numFrames audioData) 0 [] = []"
    if "length audioData < fftSize CONFIG"
    unfolding loop short [OF that] by simp
  show ?thesis
    using len loop frames short none by blast
qed

theorem frame_segmentation_witness:
  "spec_frameCount 48000 2048 512 = 90
   \<and> length (frame_loop (replicate 48000 0) (numFrames (replicate 48000 0)) 0 []) = 90
   \<and> frame_at (replicate 48000 0) 89 = replicate 2048 0
   \<and> frame_loop [1, 2, 3] (numFrames [1, 2, 3]) 0 [] = []"
proof -
  have c: "spec_frameCount 48000 2048 512 = 90" by (simp add: spec_frameCount_def)
  show ?thesis
    using frame_segmentation [of "replicate 48000 0"] frame_segmentation [of "[1, 2, 3]"]
    by (simp add: c)
qed

text \<open>
  Claim C10. With a normalised signal of 48000 samples, \<open>fftSize = 2048\<close> and
  \<open>hopLength = 512\<close>, \<open>numFrames\<close> is exactly 90, below \<open>targetFrames = 94\<close>: for every
  input the loop pushes 90 feature vectors, the padding loop appends 4 zero vectors, the
  truncation branch is not taken, and the last 4 of the 94 feature vectors are zero vectors.
\<close>

theorem natural_frame_count_is_90:
  "numFrames (audioBufferToFloat32 channelData) = 90
   \<and> length (naturalFeatures channelData) = 90
   \<and> targetFrames = 94
   \<and> length (naturalFeatures channelData) < targetFrames
   \<and> \<not> length (pad_loop (naturalFeatures channelData)) > targetFrames
   \<and> pad_loop (naturalFeatures channelData)
       = naturalFeatures channelData @ replicate 4 (replicate (nFeatures CONFIG) 0)
   \<and> featureSequence channelData
       = naturalFeatures channelData @ replicate 4 (replicate (nFeatures CONFIG) 0)
   \<and> drop 90 (featureSequence channelData) = replicate 4 (replicate (nFeatures CONFIG) 0)"
  by (simp add: numFrames_normalised naturalFeatures_eq featureSequence_eq pad_loop_eq
      targetFrames_def)

subsection \<open>The features of one frame\<close>

lemma sum_abs_loop_eq:
  "sum_abs_loop frame k e s = s + (\<Sum>i = k..<e. \<bar>frame ! i\<bar>)"
proof (induction frame k e s rule: sum_abs_loop.induct)
  case (1 frame k e s)
  show ?case
  proof (cases "k < e")
    case True
    with 1 show ?thesis
      by (simp add: sum_abs_loop.simps [of frame k e s] sum.atLeast_Suc_lessThan add.assoc)
  next
    case False
    then show ?thesis by (simp add: sum_abs_loop.simps [of frame k e s])
  qed
qed

lemma sum_nth_take_drop:
  "k + n \<le> length xs \<Longrightarrow> (\<Sum>i = k..<k + n. f (xs ! i)) = sum_list (map f (take n (drop k xs)))"
proof -
  assume a: "k + n \<le> length xs"
  have "sum_list (map f (take n (drop k xs))) = (\<Sum>i = 0..<n. f (take n (drop k xs) ! i))"
    using a by (simp add: sum_list_sum_nth atLeast0LessThan)
  also have "\<dots> = (\<Sum>i = 0..<n. f (xs ! (k + i)))"
    using a by (intro sum.cong) auto
  also have "\<dots> = (\<Sum>i = k..<k + n. f (xs ! i))"
    using sum.shift_bounds_nat_ivl [of "\<lambda>i. f (xs ! i)" 0 k n] by (simp add: add.commute)
  finally show ?thesis by simp
qed

lemma band_step_inv:
  assumes "band_inv frame j ff" "j < 40"
  shows "band_inv frame (Suc j) (band_step frame j ff)"
proof -
  from assms have len: "length ff = 120" by (simp add: band_inv_def)
  have old: "\<And>m. m < j \<Longrightarrow> ff ! m = bandEnergy frame m
          \<and> ff ! (m + 40) = (if m > 0 then bandEnergy frame m - bandEnergy frame (m - 1) else 0)
          \<and> ff ! (m + 80) = (if m > 0 then ff ! (m + 40) - ff ! (m - 1 + 40) else 0)"
    using assms(1) by (simp add: band_inv_def)
  show ?thesis
    unfolding band_inv_def
  proof (intro conjI allI impI)
    show "length (band_step frame j ff) = 120" by (simp add: band_step_def Let_def len)
  next
    fix m assume "m < Suc j"
    then consider "m < j" | "m = j" by linarith
    then show "band_step frame j ff ! m = bandEnergy frame m"
      using old assms(2) len by cases (auto simp: band_step_def Let_def)
  next
    fix m assume "m < Suc j"
    then consider "m < j" | "m = j" by linarith
    then show "band_step frame j ff ! (m + 40) = (if m > 0 then bandEnergy frame m - bandEnergy frame (m - 1) else 0)"
      using old[of "j - 1"] old[of m] assms(2) len by cases (auto simp: band_step_def Let_def)
  next
    fix m assume "m < Suc j"
    then consider "m < j" | "m = j" by linarith
    then show "band_step frame j ff ! (m + 80) = (if m > 0 then band_step frame j ff ! (m + 40) - band_step frame j ff ! (m - 1 + 40) else 0)"
      using old[of "j - 1"] old[of m] assms(2) len by cases (auto simp: band_step_def Let_def nth_list_update)
  qed
qed

lemma band_loop_inv:
  "band_inv frame j ff \<Longrightarrow> j \<le> 40 \<Longrightarrow> band_inv frame 40 (band_loop frame j ff)"
proof (induction frame j ff rule: band_loop.induct)
  case (1 frame j ff)
  show ?case
  proof (cases "j < 40")
    case True
    with 1 show ?thesis by (simp add: band_loop.simps [of frame j ff] band_step_inv)
  next
    case False
    with 1 show ?thesis by (subst band_loop.simps) simp
  qed
qed

lemma frameFeatures_inv: "band_inv frame 40 (frameFeatures frame)"
  unfolding frameFeatures_def
  by (rule band_loop_inv) (simp_all add: band_inv_def newFloat32Array_def)

lemma length_frameFeatures: "length (frameFeatures frame) = 120"
  using frameFeatures_inv by (simp add: band_inv_def)

lemma nth_append3_mid:
  "length A = n \<Longrightarrow> n \<le> i \<Longrightarrow> i < n + length B \<Longrightarrow> (A @ B @ C) ! i = B ! (i - n)"
  by (auto simp: nth_append)

lemma nth_append3_last:
  "length A = n \<Longrightarrow> length B = n \<Longrightarrow> n + n \<le> i \<Longrightarrow> (A @ B @ C) ! i = C ! (i - (n + n))"
  by (auto simp: nth_append)

lemma frameFeatures_layout:
  "frameFeatures frame =
     map (bandEnergy frame) [0..<40]
     @ band_diff (map (bandEnergy frame) [0..<40])
     @ band_diff (band_diff (map (bandEnergy frame) [0..<40]))"
  (is "?v = ?E @ ?D1 @ ?D2")
proof (rule nth_equalityI)
  show "length ?v = length (?E @ ?D1 @ ?D2)"
    by (simp add: length_frameFeatures band_diff_def)
next
  fix i assume "i < length ?v"
  then have i: "i < 120" by (simp add: length_frameFeatures)
  have inv: "\<And>m. m < 40 \<Longrightarrow> ?v ! m = bandEnergy frame m
          \<and> ?v ! (m + 40) = (if m > 0 then bandEnergy frame m - bandEnergy frame (m - 1) else 0)
          \<and> ?v ! (m + 80) = (if m > 0 then ?v ! (m + 40) - ?v ! (m - 1 + 40) else 0)"
    using frameFeatures_inv[of frame] by (simp add: band_inv_def)
  have lens: "length ?E = 40" "length ?D1 = 40" "length ?D2 = 40"
    by (simp_all add: band_diff_def)
  have D1: "\<And>m. m < 40 \<Longrightarrow> ?D1 ! m = (if m > 0 then bandEnergy frame m - bandEnergy frame (m - 1) else 0)"
    by (simp add: band_diff_def)
  have D2: "\<And>m. m < 40 \<Longrightarrow> ?D2 ! m = (if m > 0 then ?D1 ! m - ?D1 ! (m - 1) else 0)"
    using lens by (simp add: band_diff_def[of "?D1"])
  consider "i < 40" | "40 \<le> i" "i < 80" | "80 \<le> i" by linarith
  then show "?v ! i = (?E @ ?D1 @ ?D2) ! i"
  proof cases
    case 1
    then show ?thesis using inv[of i] lens by (simp add: nth_append)
  next
    case 2
    then have m: "i - 40 < 40" by simp
    from 2 nth_append3_mid[of ?E 40 i ?D1 ?D2] lens
    have "(?E @ ?D1 @ ?D2) ! i = ?D1 ! (i - 40)"
      by simp
    with 2 inv[OF m] D1[OF m] show ?thesis by simp
  next
    case 3
    then have m: "i - 80 < 40" using i by simp
    from 3 nth_append3_last[of ?E 40 ?D1 i ?D2] lens
    have "(?E @ ?D1 @ ?D2) ! i = ?D2 ! (i - 80)"
      by simp
    moreover have "?D2 ! (i - 80) = (if i - 80 > 0 then ?D1 ! (i - 80) - ?D1 ! (i - 80 - 1) else 0)"
      using D2[OF m] .
    moreover have "?v ! i = (if i - 80 > 0 then ?v ! (i - 80 + 40) - ?v ! (i - 80 - 1 + 40) else 0)"
      using inv[OF m] 3 by simp
    moreover have "i - 80 > 0 \<Longrightarrow> ?v ! (i - 80 + 40) = ?D1 ! (i - 80)"
      using inv[OF m] D1[OF m] by simp
    moreover have "i - 80 > 0 \<Longrightarrow> ?v ! (i - 80 - 1 + 40) = ?D1 ! (i - 80 - 1)"
      using inv[of "i - 80 - 1"] D1[of "i - 80 - 1"] m by simp
    ultimately show ?thesis by simp
  qed
qed

lemma bandEnergy_eq:
  assumes "j < 40"
  shows "bandEnergy frame j
     = sum_list (map abs (take (length frame div 40) (drop (j * (length frame div 40)) frame)))
       / real (length frame div 40)"
proof -
  let ?b = "length frame div 40"
  have "(j + 1) * ?b \<le> 40 * ?b" using assms by (intro mult_le_mono1) simp
  also have "\<dots> \<le> length frame" by simp
  finally have fit: "j * ?b + ?b \<le> length frame" by simp
  then have "min (j * ?b + ?b) (length frame) = j * ?b + ?b" by simp
  then show ?thesis
    by (simp add: bandEnergy_def Let_def sum_abs_loop_eq sum_nth_take_drop [OF fit])
qed

lemma bin_fits:
  assumes "j < 40"
  shows "j * (length frame div 40) + length frame div 40 \<le> length frame"
proof -
  let ?b = "length frame div 40"
  have "(j + 1) * ?b \<le> 40 * ?b" using assms by (intro mult_le_mono1) simp
  also have "\<dots> \<le> length frame" by simp
  finally show ?thesis by simp
qed

lemma frameFeatures_nth_energy:
  "j < 40 \<Longrightarrow> frameFeatures frame ! j = bandEnergy frame j"
  using frameFeatures_inv [of frame] by (simp add: band_inv_def)

lemma frame_with_tail_reachable:
  "frame_at (audioBufferToFloat32 (replicate 2040 0 @ replicate 8 1)) 0
     = replicate 2040 0 @ replicate 8 1"
  by (simp add: frame_at_eq audioBufferToFloat32_eq)

text \<open>
  Claim C3 as stated fails. The end index \<open>min (start + binSize) (length frame)\<close> can
  only shorten a bin, and never does, since \<open>(j + 1) \<times> binSize \<le> length frame\<close>: the final
  bin is as wide as the others, and the last \<open>length frame mod 40\<close> samples of the frame
  (8 of 2048) are in no bin. In the frame of 2040 zeros followed by 8 ones, which is frame 0
  of the signal made of these 2048 samples, band 39 has energy 0, where a final bin that
  absorbed the remainder would have the mean absolute amplitude 8/59.
\<close>

theorem final_bin_counterexample:
  "frameFeatures (frame_at (audioBufferToFloat32 (replicate 2040 0 @ replicate 8 1)) 0) ! 39 = 0
   \<and> spec_bandEnergy (frame_at (audioBufferToFloat32 (replicate 2040 0 @ replicate 8 1)) 0) 39
       = 8 / 59
   \<and> frameFeatures (frame_at (audioBufferToFloat32 (replicate 2040 0 @ replicate 8 1)) 0) ! 39
       \<noteq> spec_bandEnergy (frame_at (audioBufferToFloat32 (replicate 2040 0 @ replicate 8 1)) 0) 39"
proof -
  have "frameFeatures (replicate 2040 0 @ replicate 8 1) ! 39 = 0"
    by (simp add: frameFeatures_nth_energy bandEnergy_eq sum_list_replicate)
  moreover have "spec_bandEnergy (replicate 2040 0 @ replicate 8 1) 39 = 8 / 59"
    by (simp add: spec_bandEnergy_def spec_bin_def mean_abs_def sum_list_replicate)
  ultimately show ?thesis
    unfolding frame_with_tail_reachable by simp
qed

text \<open>
  Claim C3, amended. For every frame of at least \<open>nMfcc = 40\<close> samples and every band
  \<open>j < 40\<close>, the band energy is the mean absolute amplitude of the \<open>binSize\<close> samples at
  the indices from \<open>j \<times> binSize\<close> up to \<open>(j + 1) \<times> binSize\<close>, with
  \<open>binSize = floor(length frame / 40)\<close>; the clamp of the end index changes nothing, and the
  40 bins cover the frame but for its last \<open>length frame mod 40\<close> samples.
\<close>

theorem band_energy_mean_abs:
  assumes "nMfcc CONFIG \<le> length frame" and "j < nMfcc CONFIG"
  shows "frameFeatures frame ! j
           = mean_abs (slice frame (j * (length frame div nMfcc CONFIG))
                                   (j * (length frame div nMfcc CONFIG) + length frame div nMfcc CONFIG))
         \<and> length (slice frame (j * (length frame div nMfcc CONFIG))
                                   (j * (length frame div nMfcc CONFIG) + length frame div nMfcc CONFIG))
             = length frame div nMfcc CONFIG
         \<and> 0 < length frame div nMfcc CONFIG
         \<and> min (j * (length frame div nMfcc CONFIG) + length frame div nMfcc CONFIG) (length frame)
             = j * (length frame div nMfcc CONFIG) + length frame div nMfcc CONFIG
         \<and> nMfcc CONFIG * (length frame div nMfcc CONFIG) = length frame - length frame mod nMfcc CONFIG"
proof -
  from assms have j: "j < 40" and len: "40 \<le> length frame" by simp_all
  from len have pos: "0 < length frame div 40" by (simp add: div_greater_zero_iff)
  have l: "length (slice frame (j * (length frame div 40)) (j * (length frame div 40) + length frame div 40))
        = length frame div 40"
    using bin_fits [OF j, of frame] by (simp add: slice_def)
  have e: "frameFeatures frame ! j = mean_abs (slice frame (j * (length frame div 40)) (j * (length frame div 40) + length frame div 40))"
    unfolding mean_abs_def l
    by (simp add: frameFeatures_nth_energy [OF j] bandEnergy_eq [OF j] slice_def)
  have m: "40 * (length frame div 40) = length frame - length frame mod 40"
    by (simp add: minus_mod_eq_mult_div)
  show ?thesis
    using e l pos bin_fits [OF j, of frame] m by simp
qed

theorem band_energy_mean_abs_witness:
  "nMfcc CONFIG \<le> length (replicate 2048 (1/2 :: real)) \<and> 3 < nMfcc CONFIG
   \<and> frameFeatures (replicate 2048 (1/2)) ! 3 = 1/2"
  using band_energy_mean_abs [of "replicate 2048 (1/2)" 3]
  by (simp add: mean_abs_def slice_def sum_list_replicate)

text \<open>
  Claim C4. For every frame, the feature vector is
  \<open>[energy_0..energy_39, d1_0..d1_39, d2_0..d2_39]\<close>, where \<open>d1\<close> is the band-to-band
  difference of the energies of the same frame (\<open>d1[j] = energy[j] - energy[j - 1]\<close> for
  \<open>j > 0\<close>, and \<open>d1[0] = 0\<close>) and \<open>d2\<close> is the same difference applied to \<open>d1\<close>.
\<close>

theorem feature_vector_layout:
  "frameFeatures frame =
     map (bandEnergy frame) [0..<nMfcc CONFIG]
     @ band_diff (map (bandEnergy frame) [0..<nMfcc CONFIG])
     @ band_diff (band_diff (map (bandEnergy frame) [0..<nMfcc CONFIG]))"
  using frameFeatures_layout [of frame] by simp

subsection \<open>Normalisation\<close>

lemma ncols_rectangular: "rectangular m T F \<Longrightarrow> 0 < T \<Longrightarrow> ncols m = F"
  by (cases m) (auto simp: rectangular_def ncols_def)

lemma map2_nth_eq:
  "length xs = n \<Longrightarrow> length ys = n \<Longrightarrow> map2 f xs ys = map (\<lambda>i. f (xs ! i) (ys ! i)) [0..<n]"
  by (rule nth_equalityI) auto

lemma tf_mean_axis1_single: "tf_mean_axis1 [m] = [[map (col_mean m) [0..<ncols m]]]"
  by (simp add: tf_mean_axis1_def col_mean_def)

lemma tf_sub_mean:
  assumes "rectangular m T F" "0 < T"
  shows "tf_sub [m] (tf_mean_axis1 [m]) = [deviations m F]"
proof -
  have "map2 (-) row (map (col_mean m) [0..<F]) = map (\<lambda>c. row ! c - col_mean m c) [0..<F]"
    if "row \<in> set m" for row
  proof -
    from that assms have "length row = F" by (simp add: rectangular_def)
    then show ?thesis by (simp add: map2_nth_eq [of _ F])
  qed
  then show ?thesis
    by (simp add: tf_sub_def tf_mean_axis1_single ncols_rectangular [OF assms] deviations_def)
qed

lemma tf_moments_variance_single:
  assumes "rectangular m T F" "0 < T"
  shows "tf_moments_variance [m] = [[map (col_variance m) [0..<F]]]"
proof -
  let ?sq = "map (map (\<lambda>x. x * x)) (deviations m F)"
  have rect: "rectangular ?sq T F"
    using assms by (simp add: rectangular_def deviations_def)
  have len: "length ?sq = length m" by (simp add: deviations_def)
  have col: "col_mean ?sq c = col_variance m c" if "c < F" for c
    using that
    by (simp add: col_mean_def col_variance_def column_def deviations_def comp_def
        power2_eq_square)
  have "tf_moments_variance [m] = tf_mean_axis1 [?sq]"
    by (simp add: tf_moments_variance_def tf_sub_mean [OF assms] tf_square_def)
  also have "\<dots> = [[map (col_mean ?sq) [0..<F]]]"
    by (simp only: tf_mean_axis1_single ncols_rectangular [OF rect assms(2)])
  also have "map (col_mean ?sq) [0..<F] = map (col_variance m) [0..<F]"
    using col by simp
  finally show ?thesis .
qed

lemma normalizeTensor_single:
  assumes "rectangular m T F" "0 < T"
  shows "normalizeTensor [m] =
     [map (\<lambda>row. map (\<lambda>c. js_div (row ! c - col_mean m c) (col_std m c + 1 / 10 ^ 8)) [0..<F]) m]"
proof -
  have std: "tf_add_scalar (tf_sqrt (tf_moments_variance [m])) (1 / 10 ^ 8)
      = [[map (\<lambda>c. col_std m c + 1 / 10 ^ 8) [0..<F]]]"
    by (simp add: tf_moments_variance_single [OF assms] tf_sqrt_def tf_add_scalar_def
        col_std_def comp_def)
  have "map2 js_div (map (\<lambda>c. row ! c - col_mean m c) [0..<F])
            (map (\<lambda>c. col_std m c + 1 / 10 ^ 8) [0..<F])
        = map (\<lambda>c. js_div (row ! c - col_mean m c) (col_std m c + 1 / 10 ^ 8)) [0..<F]" for row
    by (simp add: map2_nth_eq [of _ F])
  then show ?thesis
    unfolding normalizeTensor_def Let_def std tf_sub_mean [OF assms]
    by (simp add: tf_div_def deviations_def comp_def)
qed

lemma normalizeTensor_nth:
  assumes "rectangular m T F" "0 < T" "t < T" "c < F"
  shows "normalizeTensor [m] ! 0 ! t ! c
     = js_div (m ! t ! c - col_mean m c) (col_std m c + 1 / 10 ^ 8)"
  using assms by (simp add: normalizeTensor_single [OF assms(1,2)] rectangular_def)

lemma col_std_nonneg: "0 \<le> col_std m c"
  unfolding col_std_def col_variance_def
  by (intro real_sqrt_ge_zero divide_nonneg_nonneg sum_list_nonneg) auto

lemma rectangular_featureSequence: "rectangular (featureSequence channelData) 94 120"
  by (auto simp: rectangular_def featureSequence_eq naturalFeatures_eq length_frameFeatures)

lemma extractMFCC_eq:
  "extractMFCC channelData =
     [map (\<lambda>row. map (\<lambda>c. js_div (row ! c - col_mean (featureSequence channelData) c)
                                   (col_std (featureSequence channelData) c + 1 / 10 ^ 8))
               [0..<120])
        (featureSequence channelData)]"
  by (simp add: extractMFCC_def tensor3d_def
      normalizeTensor_single [OF rectangular_featureSequence])

text \<open>
  Claim C1. For every input, the feature sequence built by \<open>extractMFCC\<close> has exactly
  \<open>targetFrames = 94\<close> entries, each of length \<open>3 \<times> nMfcc = 120\<close>, and so has the tensor
  returned; a list of fewer than 94 feature vectors is completed with zero vectors of
  length 120, and a list of more than 94 is cut down to its first 94.
\<close>

theorem feature_sequence_shape:
  "length (featureSequence channelData) = targetFrames
   \<and> targetFrames = 94
   \<and> (\<forall>v \<in> set (featureSequence channelData). length v = 3 * nMfcc CONFIG)
   \<and> 3 * nMfcc CONFIG = 120
   \<and> (\<forall>features. length features < targetFrames \<longrightarrow>
         truncate_frames (pad_loop features)
           = features @ replicate (targetFrames - length features) (replicate (nFeatures CONFIG) 0))
   \<and> (\<forall>features. length features > targetFrames \<longrightarrow>
         truncate_frames (pad_loop features) = take targetFrames features)
   \<and> length (extractMFCC channelData) = 1
   \<and> length (extractMFCC channelData ! 0) = targetFrames
   \<and> (\<forall>v \<in> set (extractMFCC channelData ! 0). length v = 3 * nMfcc CONFIG)"
proof -
  have a: "length (featureSequence channelData) = 94"
    and b: "\<forall>v \<in> set (featureSequence channelData). length v = 120"
    using rectangular_featureSequence [of channelData] by (simp_all add: rectangular_def)
  have c: "length (extractMFCC channelData) = 1"
    and d: "length (extractMFCC channelData ! 0) = 94"
    and e: "\<forall>v \<in> set (extractMFCC channelData ! 0). length v = 120"
    by (auto simp: extractMFCC_eq a)
  have f: "truncate_frames (pad_loop features)
           = features @ replicate (94 - length features) (replicate 120 0)"
    if "length features < 94" for features
    using that by (simp add: truncate_pad_eq)
  have g: "truncate_frames (pad_loop features) = take 94 features"
    if "length features > 94" for features
    using that by (simp add: truncate_pad_eq)
  show ?thesis
    using a b c d e f g by (simp add: targetFrames_def)
qed

theorem feature_sequence_shape_witness:
  "length (featureSequence []) = 94
   \<and> length (featureSequence [] ! 7) = 120
   \<and> length (extractMFCC [] ! 0 ! 7) = 120
   \<and> truncate_frames (pad_loop [[1]]) = [1] # replicate 93 (replicate 120 0)
   \<and> truncate_frames (pad_loop (replicate 100 [])) = replicate 94 []"
proof -
  note t = feature_sequence_shape [of "[]"]
  from t have l: "length (featureSequence []) = 94" "length (extractMFCC [] ! 0) = 94"
    by (simp_all add: targetFrames_def)
  then have "featureSequence [] ! 7 \<in> set (featureSequence [])"
    and "extractMFCC [] ! 0 ! 7 \<in> set (extractMFCC [] ! 0)"
    by simp_all
  with t have "length (featureSequence [] ! 7) = 120" "length (extractMFCC [] ! 0 ! 7) = 120"
    by simp_all
  moreover from t have "truncate_frames (pad_loop [[1]]) = [1] # replicate 93 (replicate 120 0)"
    and "truncate_frames (pad_loop (replicate 100 [])) = replicate 94 []"
    by (simp_all add: targetFrames_def)
  ultimately show ?thesis using l by simp
qed

lemma nth_featureSequence_40:
  assumes "t < 94"
  shows "featureSequence channelData ! t ! 40 = 0"
proof (cases "t < 90")
  case True
  then have "featureSequence channelData ! t
      = frameFeatures (frame_at (audioBufferToFloat32 channelData) t)"
    by (simp add: featureSequence_eq naturalFeatures_eq nth_append)
  moreover have "frameFeatures frame ! (0 + 40) = 0" for frame
    using frameFeatures_inv [of frame] unfolding band_inv_def by (metis less_numeral_extra(3) zero_less_numeral)
  ultimately show ?thesis by simp
next
  case False
  with assms have "featureSequence channelData ! t = replicate 120 0"
    by (simp add: featureSequence_eq naturalFeatures_eq nth_append)
  then show ?thesis by simp
qed

lemma constantColumn_featureSequence_40: "constantColumn (featureSequence channelData) 40"
proof -
  have len: "length (featureSequence channelData) = 94"
    using rectangular_featureSequence [of channelData] by (simp add: rectangular_def)
  have "row ! 40 = 0" if "row \<in> set (featureSequence channelData)" for row
    using that nth_featureSequence_40 [of _ channelData] len
    by (auto simp: in_set_conv_nth)
  moreover have "hd (featureSequence channelData) ! 40 = 0"
  proof -
    from len have "featureSequence channelData \<noteq> []" by auto
    then have "hd (featureSequence channelData) = featureSequence channelData ! 0"
      by (rule hd_conv_nth)
    then show ?thesis using nth_featureSequence_40 [of 0 channelData] by simp
  qed
  ultimately show ?thesis by (simp add: constantColumn_def)
qed

lemma featureSequence_tail_row:
  assumes "90 \<le> t" "t < 94"
  shows "featureSequence channelData ! t = replicate 120 0"
  using assms by (simp add: featureSequence_eq naturalFeatures_eq nth_append)

lemma length_featureSequence: "length (featureSequence channelData) = 94"
  using rectangular_featureSequence [of channelData] by (simp add: rectangular_def)

lemma constant_column_is_zero:
  assumes "constantColumn (featureSequence channelData) c" and "c < 120" and "t < 94"
  shows "featureSequence channelData ! t ! c = 0"
proof -
  let ?fs = "featureSequence channelData"
  have mem: "?fs ! k \<in> set ?fs" if "k < 94" for k
    using that by (simp add: length_featureSequence)
  from assms(1) mem [of 93] have "?fs ! 93 ! c = hd ?fs ! c"
    by (simp add: constantColumn_def)
  moreover have "?fs ! 93 ! c = 0"
    using assms(2) by (simp add: featureSequence_tail_row)
  moreover from assms(1) mem [OF assms(3)] have "?fs ! t ! c = hd ?fs ! c"
    by (simp add: constantColumn_def)
  ultimately show ?thesis by simp
qed

text \<open>Every feature sequence that \<open>extractMFCC\<close> builds has a constant column: column 40,
  the first difference of band 0, is 0 in every frame; and since the rows 90 to 93 are
  zero vectors, a constant column of such a sequence is a column of zeros.\<close>

lemma featureSequence_hasConstantColumn: "hasConstantColumn (featureSequence channelData)"
proof -
  have "ncols (featureSequence channelData) = 120"
    by (rule ncols_rectangular [OF rectangular_featureSequence]) simp
  then show ?thesis
    using constantColumn_featureSequence_40 [of channelData]
    by (auto simp: hasConstantColumn_def intro!: exI [of _ 40])
qed

lemma mean_entry:
  assumes "rectangular m T F" "0 < T" "c < F"
  shows "tf_mean_axis1 (tensor3d [m]) ! 0 ! 0 ! c = col_mean m c"
  using assms by (simp add: tensor3d_def tf_mean_axis1_single ncols_rectangular [OF assms(1,2)])

lemma std_entry:
  assumes "rectangular m T F" "0 < T" "c < F"
  shows "tf_sqrt (tf_moments_variance (tensor3d [m])) ! 0 ! 0 ! c = col_std m c"
  using assms(3)
  by (simp add: tensor3d_def tf_moments_variance_single [OF assms(1,2)] tf_sqrt_def col_std_def)

lemma divisor_entry:
  assumes "rectangular m T F" "0 < T" "c < F"
  shows "tf_add_scalar (tf_sqrt (tf_moments_variance (tensor3d [m]))) e ! 0 ! 0 ! c
      = col_std m c + e"
  using assms(3)
  by (simp add: tensor3d_def tf_moments_variance_single [OF assms(1,2)] tf_sqrt_def
      tf_add_scalar_def col_std_def)

lemma col_mean_zero_column:
  assumes "\<forall>row \<in> set m. row ! c = 0"
  shows "col_mean m c = 0"
proof -
  from assms have "column m c = replicate (length m) 0"
    by (auto simp: column_def intro!: nth_equalityI)
  then show ?thesis by (simp add: col_mean_def sum_list_replicate)
qed

lemma col_std_zero_column:
  assumes "\<forall>row \<in> set m. row ! c = 0"
  shows "col_std m c = 0"
proof -
  from assms have "column m c = replicate (length m) 0"
    by (auto simp: column_def intro!: nth_equalityI)
  then show ?thesis
    by (simp add: col_std_def col_variance_def col_mean_zero_column [OF assms]
        sum_list_replicate)
qed

text \<open>
  Claim C6. For every input and every constant column of the feature sequence that
  \<open>extractMFCC\<close> builds from it: the column holds only zeros, its mean and its standard
  deviation are 0, and the divisor of the column is \<open>std + 1e-8 = 1e-8\<close>, not zero.
  \<open>extractMFCC\<close> returns the quotient of \<open>tensor - mean\<close> by \<open>std + 1e-8\<close>, entry by entry;
  no column has a zero divisor; every normalised entry of the constant column is the
  finite number 0, neither NaN nor an infinity, where the division by \<open>std\<close> alone would
  be \<open>0 / 0\<close>, that is NaN.
\<close>

theorem constant_column_normalises_to_zero:
  assumes "c < 3 * nMfcc CONFIG" and "constantColumn (featureSequence channelData) c"
  shows "(\<forall>t < targetFrames. featureSequence channelData ! t ! c = 0)
    \<and> tf_mean_axis1 (tensor3d [featureSequence channelData]) ! 0 ! 0 ! c = 0
    \<and> tf_sqrt (tf_moments_variance (tensor3d [featureSequence channelData])) ! 0 ! 0 ! c = 0
    \<and> tf_add_scalar (tf_sqrt (tf_moments_variance (tensor3d [featureSequence channelData])))
          (1 / 10 ^ 8) ! 0 ! 0 ! c = 1 / 10 ^ 8
    \<and> extractMFCC channelData
        = tf_div (tf_sub (tensor3d [featureSequence channelData])
                         (tf_mean_axis1 (tensor3d [featureSequence channelData])))
                 (tf_add_scalar
                    (tf_sqrt (tf_moments_variance (tensor3d [featureSequence channelData])))
                    (1 / 10 ^ 8))
    \<and> (\<forall>t < targetFrames. \<forall>c' < 3 * nMfcc CONFIG.
          extractMFCC channelData ! 0 ! t ! c'
            = js_div (featureSequence channelData ! t ! c'
                        - tf_mean_axis1 (tensor3d [featureSequence channelData]) ! 0 ! 0 ! c')
                     (tf_add_scalar
                        (tf_sqrt (tf_moments_variance (tensor3d [featureSequence channelData])))
                        (1 / 10 ^ 8) ! 0 ! 0 ! c'))
    \<and> (\<forall>c' < 3 * nMfcc CONFIG.
          0 < tf_add_scalar
                (tf_sqrt (tf_moments_variance (tensor3d [featureSequence channelData])))
                (1 / 10 ^ 8) ! 0 ! 0 ! c')
    \<and> (\<forall>t < targetFrames. extractMFCC channelData ! 0 ! t ! c = Finite 0)
    \<and> (\<forall>t < targetFrames.
          js_div (featureSequence channelData ! t ! c
                    - tf_mean_axis1 (tensor3d [featureSequence channelData]) ! 0 ! 0 ! c)
                 (tf_sqrt (tf_moments_variance (tensor3d [featureSequence channelData]))
                    ! 0 ! 0 ! c) = NaN)"
proof -
  let ?fs = "featureSequence channelData"
  note r = rectangular_featureSequence [of channelData]
  from assms(1) have c: "c < 120" by simp
  have zero: "?fs ! t ! c = 0" if "t < 94" for t
    by (rule constant_column_is_zero [OF assms(2) c that])
  have col0: "\<forall>row \<in> set ?fs. row ! c = 0"
    using zero by (auto simp: in_set_conv_nth length_featureSequence)
  have mu: "tf_mean_axis1 (tensor3d [?fs]) ! 0 ! 0 ! c = 0"
    using mean_entry [OF r _ c] col_mean_zero_column [OF col0] by simp
  have sd: "tf_sqrt (tf_moments_variance (tensor3d [?fs])) ! 0 ! 0 ! c = 0"
    using std_entry [OF r _ c] col_std_zero_column [OF col0] by simp
  have dv: "tf_add_scalar (tf_sqrt (tf_moments_variance (tensor3d [?fs]))) (1 / 10 ^ 8) ! 0 ! 0 ! c
      = 1 / 10 ^ 8"
    using divisor_entry [OF r _ c, of "1 / 10 ^ 8"] col_std_zero_column [OF col0] by simp
  have struct: "extractMFCC channelData
      = tf_div (tf_sub (tensor3d [?fs]) (tf_mean_axis1 (tensor3d [?fs])))
               (tf_add_scalar (tf_sqrt (tf_moments_variance (tensor3d [?fs]))) (1 / 10 ^ 8))"
    by (simp only: extractMFCC_def normalizeTensor_def Let_def)
  have entry: "extractMFCC channelData ! 0 ! t ! c'
      = js_div (?fs ! t ! c' - tf_mean_axis1 (tensor3d [?fs]) ! 0 ! 0 ! c')
               (tf_add_scalar (tf_sqrt (tf_moments_variance (tensor3d [?fs]))) (1 / 10 ^ 8)
                  ! 0 ! 0 ! c')"
    if "t < 94" "c' < 120" for t c'
  proof -
    have me: "tf_mean_axis1 (tensor3d [?fs]) ! 0 ! 0 ! c' = col_mean ?fs c'"
      using mean_entry [OF r _ that(2)] by simp
    have de: "tf_add_scalar (tf_sqrt (tf_moments_variance (tensor3d [?fs]))) (1 / 10 ^ 8)
                ! 0 ! 0 ! c' = col_std ?fs c' + 1 / 10 ^ 8"
      using divisor_entry [OF r _ that(2)] by simp
    have "extractMFCC channelData ! 0 ! t ! c'
        = js_div (?fs ! t ! c' - col_mean ?fs c') (col_std ?fs c' + 1 / 10 ^ 8)"
      using normalizeTensor_nth [OF r _ that] by (simp add: extractMFCC_def tensor3d_def)
    then show ?thesis by (simp only: me de)
  qed
  have pos: "0 < tf_add_scalar (tf_sqrt (tf_moments_variance (tensor3d [?fs]))) (1 / 10 ^ 8)
                 ! 0 ! 0 ! c'"
    if "c' < 120" for c'
    using that col_std_nonneg [of ?fs c']
    by (simp add: divisor_entry [OF r] add_nonneg_pos)
  have fin: "extractMFCC channelData ! 0 ! t ! c = Finite 0" if "t < 94" for t
    unfolding entry [OF that c] mu dv zero [OF that] by (simp add: js_div_def)
  have nan: "js_div (?fs ! t ! c - tf_mean_axis1 (tensor3d [?fs]) ! 0 ! 0 ! c)
                    (tf_sqrt (tf_moments_variance (tensor3d [?fs])) ! 0 ! 0 ! c) = NaN"
    if "t < 94" for t
    unfolding mu sd zero [OF that] by (simp add: js_div_def)
  show ?thesis
    using zero mu sd dv struct entry pos fin nan by (simp add: targetFrames_def)
qed

theorem constant_column_normalises_to_zero_witness:
  "(40::nat) < 3 * nMfcc CONFIG
   \<and> constantColumn (featureSequence (replicate 3000 (1 / 2))) 40
   \<and> featureSequence (replicate 3000 (1 / 2)) ! 5 ! 40 = 0
   \<and> extractMFCC (replicate 3000 (1 / 2)) ! 0 ! 5 ! 40 = Finite 0
   \<and> extractMFCC [] ! 0 ! 93 ! 40 = Finite 0
   \<and> 0 < tf_add_scalar (tf_sqrt (tf_moments_variance (tensor3d [featureSequence []])))
             (1 / 10 ^ 8) ! 0 ! 0 ! 7"
proof -
  have k: "constantColumn (featureSequence channelData) 40" for channelData
    by (rule constantColumn_featureSequence_40)
  have n: "(40::nat) < 3 * nMfcc CONFIG" by simp
  note a = constant_column_normalises_to_zero [OF n k, of "replicate 3000 (1 / 2)"]
  note b = constant_column_normalises_to_zero [OF n k, of "[]"]
  have "featureSequence (replicate 3000 (1 / 2)) ! 5 ! 40 = 0"
    using a [THEN conjunct1] by (simp add: targetFrames_def)
  moreover have "extractMFCC (replicate 3000 (1 / 2)) ! 0 ! 5 ! 40 = Finite 0"
    using a [THEN conjunct2, THEN conjunct2, THEN conjunct2, THEN conjunct2, THEN conjunct2,
        THEN conjunct2, THEN conjunct2, THEN conjunct1]
    by (simp add: targetFrames_def)
  moreover have "extractMFCC [] ! 0 ! 93 ! 40 = Finite 0"
    using b [THEN conjunct2, THEN conjunct2, THEN conjunct2, THEN conjunct2, THEN conjunct2,
        THEN conjunct2, THEN conjunct2, THEN conjunct1]
    by (simp add: targetFrames_def)
  moreover have "0 < tf_add_scalar (tf_sqrt (tf_moments_variance (tensor3d [featureSequence []])))
             (1 / 10 ^ 8) ! 0 ! 0 ! 7"
    using b [THEN conjunct2, THEN conjunct2, THEN conjunct2, THEN conjunct2, THEN conjunct2,
        THEN conjunct2, THEN conjunct1]
    by simp
  ultimately show ?thesis using n k by simp
qed

section \<open>Properties of the WAV encoding\<close>

lemma length_le_bytes [simp]: "length (le_bytes k v) = k"
  by (simp add: le_bytes_def)

lemma length_ascii [simp]: "length (ascii s) = length s"
  by (simp add: ascii_def)

lemma store_next:
  "byteOffset = length w \<Longrightarrow> length bs \<le> m \<Longrightarrow>
   store (w @ replicate m 0) byteOffset bs = Some ((w @ bs) @ replicate (m - length bs) 0)"
  by (simp add: store_def)

lemma le_bytes_1: "le_bytes (Suc 0) v = [word_of_nat v]"
  by (simp add: le_bytes_def word_of_nat_eq_iff take_bit_eq_mod)

lemma writeString_next:
  "offset = length w \<Longrightarrow> length s \<le> m \<Longrightarrow>
   writeString (w @ replicate m 0) offset s = Some ((w @ ascii s) @ replicate (m - length s) 0)"
proof (induction s arbitrary: w m offset)
  case Nil
  then show ?case by (simp add: ascii_def)
next
  case (Cons c cs)
  from Cons.prems have m: "1 \<le> m" "length cs \<le> m - 1" by simp_all
  have "writeString (w @ replicate m 0) offset (c # cs)
      = writeString ((w @ [word_of_nat (of_char c)]) @ replicate (m - 1) 0) (offset + 1) cs"
    using Cons.prems m by (simp add: setUint8_def le_bytes_1 store_next)
  also have "\<dots> = Some (((w @ [word_of_nat (of_char c)]) @ ascii cs) @ replicate (m - 1 - length cs) 0)"
    using Cons.prems m by (intro Cons.IH) simp_all
  finally show ?case by (simp add: ascii_def)
qed

lemma sample_loop_next:
  "offset = length w \<Longrightarrow>
   sample_loop (w @ replicate (2 * length xs) 0) offset xs
     = Some (w @ concat (map (\<lambda>x. le_bytes 2 (nat (spec_quantize x mod 2 ^ 16))) xs))"
proof (induction xs arbitrary: w offset)
  case Nil
  then show ?case by simp
next
  case (Cons x xs)
  let ?s = "max (- 1) (min 1 x)"
  have "js_trunc (if s < 0 then s * 32768 else s * 32767)
      = js_trunc (if 0 \<le> s then s * 32767 else s * 32768)" for s :: real
    by auto
  then have q: "js_trunc (if ?s < 0 then ?s * 32768 else ?s * 32767) = spec_quantize x"
    unfolding spec_quantize_def Let_def .
  have st: "store (w @ replicate (2 * length (x # xs)) 0) offset
               (le_bytes 2 (nat (spec_quantize x mod 2 ^ 16)))
      = Some ((w @ le_bytes 2 (nat (spec_quantize x mod 2 ^ 16))) @ replicate (2 * length xs) 0)"
    using store_next [of offset w "le_bytes 2 (nat (spec_quantize x mod 2 ^ 16))"
        "2 * length (x # xs)"] Cons.prems
    by simp
  have "sample_loop (w @ replicate (2 * length (x # xs)) 0) offset (x # xs)
      = sample_loop ((w @ le_bytes 2 (nat (spec_quantize x mod 2 ^ 16))) @ replicate (2 * length xs) 0) (offset + 2) xs"
    by (simp only: sample_loop.simps Let_def setInt16_def q st Option.bind.simps)
  also have "\<dots> = Some ((w @ le_bytes 2 (nat (spec_quantize x mod 2 ^ 16)))
        @ concat (map (\<lambda>x. le_bytes 2 (nat (spec_quantize x mod 2 ^ 16))) xs))"
    using Cons.prems by (intro Cons.IH) simp
  finally show ?case by simp
qed

lemma mod_mult_div: "(v mod (a * b)) div a = v div a mod (b::nat)"
proof (cases "a = 0")
  case True
  then show ?thesis by simp
next
  case False
  have "v mod (a * b) = a * (v div a mod b) + v mod a" by (rule mod_mult2_eq)
  then show ?thesis using False by simp
qed

lemma byte_of_mod: "v mod 256 ^ k div 256 ^ i mod 256 = v div 256 ^ i mod (256::nat)" if "i < k"
proof -
  from that have "k = i + Suc (k - Suc i)" by simp
  then have "(256::nat) ^ k = 256 ^ i * 256 ^ Suc (k - Suc i)" by (metis power_add)
  then have "v mod 256 ^ k div 256 ^ i = v div 256 ^ i mod 256 ^ Suc (k - Suc i)"
    by (simp only: mod_mult_div)
  moreover have "v div 256 ^ i mod 256 ^ Suc (k - Suc i) mod 256 = v div 256 ^ i mod 256"
    by (rule mod_mod_cancel) simp
  ultimately show ?thesis by simp
qed

lemma le_bytes_mod: "le_bytes k (v mod 256 ^ k) = le_bytes k v"
  by (simp add: le_bytes_def byte_of_mod)

lemma setUint32_next:
  "byteOffset = length w \<Longrightarrow> 4 \<le> m \<Longrightarrow>
   setUint32 (w @ replicate m 0) byteOffset v = Some ((w @ le_bytes 4 v) @ replicate (m - 4) 0)"
  using le_bytes_mod [of 4 v] by (simp add: setUint32_def store_next)

lemma setUint16_next:
  "byteOffset = length w \<Longrightarrow> 2 \<le> m \<Longrightarrow>
   setUint16 (w @ replicate m 0) byteOffset v = Some ((w @ le_bytes 2 v) @ replicate (m - 2) 0)"
  using le_bytes_mod [of 2 v] by (simp add: setUint16_def store_next)

lemma float32ToWav_eq:
  "float32ToWav samples sample_rate =
     Some (spec_wav_header (length samples) sample_rate
           @ concat (map (\<lambda>x. int16_le (spec_quantize x)) samples))"
proof -
  let ?n = "length samples"
  let ?z = "\<lambda>k. replicate (k + 2 * ?n) (0 :: byte)"
  let ?h1 = "ascii ''RIFF''"
  let ?h2 = "?h1 @ le_bytes 4 (36 + 2 * ?n)"
  let ?h3 = "?h2 @ ascii ''WAVE''"
  let ?h4 = "?h3 @ ascii ''fmt ''"
  let ?h5 = "?h4 @ le_bytes 4 16"
  let ?h6 = "?h5 @ le_bytes 2 1"
  let ?h7 = "?h6 @ le_bytes 2 1"
  let ?h8 = "?h7 @ le_bytes 4 sample_rate"
  let ?h9 = "?h8 @ le_bytes 4 (sample_rate * 2)"
  let ?h10 = "?h9 @ le_bytes 2 2"
  let ?h11 = "?h10 @ le_bytes 2 16"
  let ?h12 = "?h11 @ ascii ''data''"
  let ?h13 = "?h12 @ le_bytes 4 (2 * ?n)"
  have b: "replicate (44 + ?n * 2) (0 :: byte) = [] @ ?z 44" by (simp add: mult.commute)
  have 1: "writeString ([] @ ?z 44) 0 ''RIFF'' = Some (?h1 @ ?z 40)"
    using writeString_next [of 0 "[]" "''RIFF''" "44 + 2 * ?n"] by simp
  have 2: "setUint32 (?h1 @ ?z 40) 4 (36 + ?n * 2) = Some (?h2 @ ?z 36)"
    using setUint32_next [of 4 ?h1 "40 + 2 * ?n" "36 + ?n * 2"] by (simp add: mult.commute)
  have 3: "writeString (?h2 @ ?z 36) 8 ''WAVE'' = Some (?h3 @ ?z 32)"
    using writeString_next [of 8 ?h2 "''WAVE''" "36 + 2 * ?n"] by simp
  have 4: "writeString (?h3 @ ?z 32) 12 ''fmt '' = Some (?h4 @ ?z 28)"
    using writeString_next [of 12 ?h3 "''fmt ''" "32 + 2 * ?n"] by simp
  have 5: "setUint32 (?h4 @ ?z 28) 16 16 = Some (?h5 @ ?z 24)"
    using setUint32_next [of 16 ?h4 "28 + 2 * ?n" 16] by simp
  have 6: "setUint16 (?h5 @ ?z 24) 20 1 = Some (?h6 @ ?z 22)"
    using setUint16_next [of 20 ?h5 "24 + 2 * ?n" 1] by simp
  have 7: "setUint16 (?h6 @ ?z 22) 22 1 = Some (?h7 @ ?z 20)"
    using setUint16_next [of 22 ?h6 "22 + 2 * ?n" 1] by simp
  have 8: "setUint32 (?h7 @ ?z 20) 24 sample_rate = Some (?h8 @ ?z 16)"
    using setUint32_next [of 24 ?h7 "20 + 2 * ?n" sample_rate] by simp
  have 9: "setUint32 (?h8 @ ?z 16) 28 (sample_rate * 2) = Some (?h9 @ ?z 12)"
    using setUint32_next [of 28 ?h8 "16 + 2 * ?n" "sample_rate * 2"] by simp
  have 10: "setUint16 (?h9 @ ?z 12) 32 2 = Some (?h10 @ ?z 10)"
    using setUint16_next [of 32 ?h9 "12 + 2 * ?n" 2] by simp
  have 11: "setUint16 (?h10 @ ?z 10) 34 16 = Some (?h11 @ ?z 8)"
    using setUint16_next [of 34 ?h10 "10 + 2 * ?n" 16] by simp
  have 12: "writeString (?h11 @ ?z 8) 36 ''data'' = Some (?h12 @ ?z 4)"
    using writeString_next [of 36 ?h11 "''data''" "8 + 2 * ?n"] by simp
  have 13: "setUint32 (?h12 @ ?z 4) 40 (?n * 2) = Some (?h13 @ replicate (2 * ?n) 0)"
    using setUint32_next [of 40 ?h12 "4 + 2 * ?n" "?n * 2"] by (simp add: mult.commute)
  have 14: "sample_loop (?h13 @ replicate (2 * ?n) 0) 44 samples
      = Some (?h13 @ concat (map (\<lambda>x. int16_le (spec_quantize x)) samples))"
    using sample_loop_next [of 44 ?h13 samples] by (simp add: int16_le_def)
  have h: "?h13 = spec_wav_header ?n sample_rate"
    by (simp add: spec_wav_header_def)
  have "float32ToWav samples sample_rate
      = Some (?h13 @ concat (map (\<lambda>x. int16_le (spec_quantize x)) samples))"
    unfolding float32ToWav_def Let_def b
    by (simp only: 1 2 3 4 5 6 7 8 9 10 11 12 13 14 Option.bind.simps)
  then show ?thesis by (simp only: h)
qed

lemma le_bytes_Suc: "le_bytes (Suc k) v = word_of_nat (v mod 256) # le_bytes k (v div 256)"
proof -
  have "[0..<Suc k] = 0 # map Suc [0..<k]"
    by (simp add: upt_conv_Cons map_Suc_upt del: upt_Suc)
  then show ?thesis
    by (simp add: le_bytes_def comp_def div_mult2_eq del: upt_Suc)
qed

lemma le_bytes_2:
  "le_bytes 2 v = [word_of_nat (v mod 256), word_of_nat (v div 256 mod 256)]"
proof -
  have "le_bytes (Suc (Suc 0)) v = [word_of_nat (v mod 256), word_of_nat (v div 256 mod 256)]"
    by (simp add: le_bytes_def)
  then show ?thesis by (simp only: numeral_2_eq_2)
qed

lemma le_bytes_4:
  "le_bytes 4 v = [word_of_nat (v mod 256), word_of_nat (v div 256 mod 256),
                   word_of_nat (v div 65536 mod 256), word_of_nat (v div 16777216 mod 256)]"
proof -
  have "le_bytes (Suc (Suc (Suc (Suc 0)))) v
      = [word_of_nat (v mod 256), word_of_nat (v div 256 mod 256),
         word_of_nat (v div 65536 mod 256), word_of_nat (v div 16777216 mod 256)]"
    by (simp add: le_bytes_def)
  moreover have "(4::nat) = Suc (Suc (Suc (Suc 0)))" by simp
  ultimately show ?thesis by (simp only:)
qed

lemma le_value_le_bytes: "le_value (le_bytes k v) = v mod 256 ^ k"
proof (induction k arbitrary: v)
  case 0
  then show ?case by (simp add: le_value_def le_bytes_def)
next
  case (Suc k)
  have u: "unat (word_of_nat (v mod 256) :: byte) = v mod 256"
    by (simp add: unat_of_nat)
  have "le_value (le_bytes (Suc k) v) = v mod 256 + 256 * le_value (le_bytes k (v div 256))"
    by (simp add: le_bytes_Suc le_value_def u)
  also have "\<dots> = v mod 256 + 256 * (v div 256 mod 256 ^ k)"
    by (simp only: Suc.IH)
  also have "\<dots> = v mod 256 ^ Suc k"
    by (simp add: mod_mult2_eq)
  finally show ?case .
qed

lemma length_spec_wav_header: "length (spec_wav_header n sample_rate) = 44"
  by (simp add: spec_wav_header_def)

lemma sample_rate_field:
  "take 4 (drop 24 (spec_wav_header n sample_rate)) = le_bytes 4 sample_rate"
  by (simp add: spec_wav_header_def)

lemma js_trunc_bounds:
  assumes "- real_of_int k \<le> x" "x \<le> real_of_int k"
  shows "- k \<le> js_trunc x \<and> js_trunc x \<le> k"
proof (cases "x < 0")
  case True
  then have "js_trunc x = - \<lfloor>- x\<rfloor>" by (simp add: js_trunc_def)
  moreover have "\<lfloor>- x\<rfloor> \<le> k" using assms(1) by (simp add: floor_le_iff)
  moreover have "0 \<le> \<lfloor>- x\<rfloor>" using True by simp
  moreover have "0 \<le> k" using assms by linarith
  ultimately show ?thesis by linarith
next
  case False
  then have "js_trunc x = \<lfloor>x\<rfloor>" by (simp add: js_trunc_def)
  moreover have "\<lfloor>x\<rfloor> \<le> k" using assms(2) by (simp add: floor_le_iff)
  moreover have "0 \<le> \<lfloor>x\<rfloor>" using False by simp
  moreover have "0 \<le> k" using assms by linarith
  ultimately show ?thesis by linarith
qed

lemma spec_quantize_range: "- 32768 \<le> spec_quantize x \<and> spec_quantize x \<le> 32767"
proof -
  let ?c = "max (- 1) (min 1 x)"
  have c: "- 1 \<le> ?c" "?c \<le> 1" by simp_all
  show ?thesis
  proof (cases "0 \<le> ?c")
    case True
    then have "spec_quantize x = js_trunc (?c * 32767)"
      by (simp only: spec_quantize_def Let_def if_True)
    moreover have "- real_of_int 32767 \<le> ?c * 32767" "?c * 32767 \<le> real_of_int 32767"
      using c True by simp_all
    ultimately show ?thesis using js_trunc_bounds [of 32767 "?c * 32767"] by simp
  next
    case False
    then have "spec_quantize x = js_trunc (?c * 32768)"
      by (simp only: spec_quantize_def Let_def if_False)
    moreover have "- real_of_int 32768 \<le> ?c * 32768"
      using c by simp
    moreover from False have "js_trunc (?c * 32768) \<le> 0"
      by (simp add: js_trunc_def mult_less_0_iff)
    ultimately show ?thesis using js_trunc_bounds [of 32768 "?c * 32768"] c False by simp
  qed
qed

text \<open>
  Claim C8. For every sample array and sample rate, \<open>float32ToWav\<close> returns a buffer of
  \<open>44 + 2 n\<close> bytes: the canonical 44-byte RIFF/WAVE header (PCM, mono, 16 bits, little
  endian, with the given sample rate in bytes 24 to 27) followed by the samples in order,
  two bytes each, low byte first, each sample clamped to \<open>[-1, 1]\<close> and then scaled by 32767
  if non-negative and by 32768 if negative; the scaled value always fits 16 signed bits.
\<close>

theorem float32ToWav_layout:
  "float32ToWav samples sample_rate
     = Some (spec_wav_header (length samples) sample_rate
             @ concat (map (\<lambda>x. int16_le (spec_quantize x)) samples))
   \<and> length (spec_wav_header (length samples) sample_rate) = 44
   \<and> length (spec_wav_header (length samples) sample_rate
             @ concat (map (\<lambda>x. int16_le (spec_quantize x)) samples))
       = 44 + 2 * length samples
   \<and> (sample_rate < 2 ^ 32 \<longrightarrow>
        le_value (take 4 (drop 24 (spec_wav_header (length samples) sample_rate))) = sample_rate)
   \<and> (\<forall>x. - 32768 \<le> spec_quantize x \<and> spec_quantize x \<le> 32767)
   \<and> spec_quantize 1 = 32767 \<and> spec_quantize (- 1) = - 32768"
proof -
  have l: "length (concat (map (\<lambda>x. int16_le (spec_quantize x)) samples)) = 2 * length samples"
    by (induction samples) (simp_all add: int16_le_def)
  have r: "le_value (take 4 (drop 24 (spec_wav_header (length samples) sample_rate))) = sample_rate"
    if "sample_rate < 2 ^ 32"
    using that by (simp add: sample_rate_field le_value_le_bytes)
  have q: "spec_quantize 1 = 32767" "spec_quantize (- 1) = - 32768"
    by (simp_all add: spec_quantize_def js_trunc_def)
  show ?thesis
    using float32ToWav_eq [of samples sample_rate] length_spec_wav_header l r q
      spec_quantize_range
    by simp
qed

theorem float32ToWav_layout_witness:
  "(16000::nat) < 2 ^ 32
   \<and> float32ToWav [1 / 2, - (1 / 2), 2, - 3] 16000
     = Some [82, 73, 70, 70, 44, 0, 0, 0, 87, 65, 86, 69, 102, 109, 116, 32,
             16, 0, 0, 0, 1, 0, 1, 0, 128, 62, 0, 0, 0, 125, 0, 0, 2, 0, 16, 0,
             100, 97, 116, 97, 8, 0, 0, 0,
             255, 63, 0, 192, 255, 127, 0, 128]
   \<and> le_value [128, 62, 0, 0] = 16000"
proof -
  have q: "spec_quantize (1 / 2) = 16383" "spec_quantize (- (1 / 2)) = - 16384"
    "spec_quantize 2 = 32767" "spec_quantize (- 3) = - 32768"
    by (simp_all add: spec_quantize_def js_trunc_def)
  have h: "spec_wav_header 4 16000
    = [82, 73, 70, 70, 44, 0, 0, 0, 87, 65, 86, 69, 102, 109, 116, 32,
       16, 0, 0, 0, 1, 0, 1, 0, 128, 62, 0, 0, 0, 125, 0, 0, 2, 0, 16, 0,
       100, 97, 116, 97, 8, 0, 0, 0]"
    by (simp add: spec_wav_header_def ascii_def le_bytes_2 le_bytes_4)
  have n: "length [1 / 2, - (1 / 2), 2, - 3 :: real] = 4" by simp
  from float32ToWav_layout [of "[1 / 2, - (1 / 2), 2, - 3]" 16000] show ?thesis
    unfolding n h by (simp add: q int16_le_def le_bytes_2 le_value_def)
qed

section \<open>Properties of the model loader\<close>

text \<open>
  Claim C9 as stated fails. \<open>loadLabels\<close> and \<open>loadSpoofingConfig\<close> run, and assign the
  module variables, before the language model is loaded, and nothing undoes that when
  the load fails: starting from the initial state, with labels that load and a language
  model that is missing, the call throws and leaves the fetched labels and the default
  spoofing config in the module state.
\<close>

theorem failed_load_keeps_labels_counterexample:
  "fst (loadModels \<lparr> tf_ready = None, fetch_languageLabels = ResponseJson [''es'', ''en''],
          fetch_spoofingConfig = FetchRejected, load_language = Inl ''Request failed: 404'',
          load_accent = Inl ''404'', load_spoofing = Inl ''404'' \<rparr> initial_registry)
     = Inl (Error notFoundMessage)
   \<and> languageLabels (snd (loadModels \<lparr> tf_ready = None,
          fetch_languageLabels = ResponseJson [''es'', ''en''],
          fetch_spoofingConfig = FetchRejected, load_language = Inl ''Request failed: 404'',
          load_accent = Inl ''404'', load_spoofing = Inl ''404'' \<rparr> initial_registry))
     = Some [''es'', ''en'']
   \<and> spoofingConfig (snd (loadModels \<lparr> tf_ready = None,
          fetch_languageLabels = ResponseJson [''es'', ''en''],
          fetch_spoofingConfig = FetchRejected, load_language = Inl ''Request failed: 404'',
          load_accent = Inl ''404'', load_spoofing = Inl ''404'' \<rparr> initial_registry))
     = Some defaultSpoofingConfig"
  by (simp add: loadModels_def initial_registry_def loadLabels_def loadSpoofingConfig_def
      outer_catch_def)

text \<open>
  Claim C9, amended. If \<open>loadModels\<close> is called with the models not loaded and loading the
  language model fails, the call throws; afterwards \<open>modelsLoaded\<close> is still false and the
  three model references are what they were before the call, while the language labels
  and the spoofing config are what \<open>loadLabels\<close> and \<open>loadSpoofingConfig\<close> made of them
  in this call. If the language model loads, the call returns, \<open>modelsLoaded\<close> is true and
  a missing accent or spoofing model leaves its reference null.
\<close>

theorem failed_required_load:
  assumes "\<not> modelsLoaded s" and "tf_ready e = None"
  shows "(\<forall>message. load_language e = Inl message \<longrightarrow>
            (\<exists>err. fst (loadModels e s) = Inl err)
            \<and> \<not> modelsLoaded (snd (loadModels e s))
            \<and> languageModel (snd (loadModels e s)) = languageModel s
            \<and> accentModel (snd (loadModels e s)) = accentModel s
            \<and> spoofingModel (snd (loadModels e s)) = spoofingModel s
            \<and> languageLabels (snd (loadModels e s)) = languageLabels (loadLabels e s)
            \<and> spoofingConfig (snd (loadModels e s)) = spoofingConfig (loadSpoofingConfig e s))
       \<and> (\<forall>m. load_language e = Inr m \<longrightarrow>
            (\<exists>r. fst (loadModels e s) = Inr r)
            \<and> modelsLoaded (snd (loadModels e s))
            \<and> languageModel (snd (loadModels e s)) = Some m
            \<and> ((\<exists>message. load_accent e = Inl message) \<longrightarrow>
                  accentModel (snd (loadModels e s)) = None)
            \<and> ((\<exists>message. load_spoofing e = Inl message) \<longrightarrow>
                  spoofingModel (snd (loadModels e s)) = None))"
  using assms
  by (auto simp: loadModels_def Let_def loadLabels_def loadSpoofingConfig_def
      split: sum.splits fetched.splits)

theorem failed_required_load_witness:
  "\<not> modelsLoaded initial_registry
   \<and> fst (loadModels \<lparr> tf_ready = None, fetch_languageLabels = ResponseJson [''es'', ''en''],
          fetch_spoofingConfig = ResponseNotOk, load_language = Inl ''Failed to fetch'',
          load_accent = Inl ''404'', load_spoofing = Inl ''404'' \<rparr> initial_registry)
       = Inl (Error ''Error cargando modelos: Error cargando modelo de idioma: Failed to fetch'')
   \<and> snd (loadModels \<lparr> tf_ready = None, fetch_languageLabels = ResponseJson [''es'', ''en''],
          fetch_spoofingConfig = ResponseNotOk, load_language = Inl ''Failed to fetch'',
          load_accent = Inl ''404'', load_spoofing = Inl ''404'' \<rparr> initial_registry)
       = initial_registry \<lparr> languageLabels := Some [''es'', ''en''] \<rparr>
   \<and> snd (loadModels \<lparr> tf_ready = None, fetch_languageLabels = ResponseJson [''es'', ''en''],
          fetch_spoofingConfig = ResponseNotOk,
          load_language = Inr (LayersModel ''/models/language/model.json''),
          load_accent = Inl ''404'',
          load_spoofing = Inr (LayersModel ''/models/spoofing/model.json'') \<rparr> initial_registry)
       = \<lparr> languageModel = Some (LayersModel ''/models/language/model.json''),
           accentModel = None,
           spoofingModel = Some (LayersModel ''/models/spoofing/model.json''),
           modelsLoaded = True, languageLabels = Some [''es'', ''en''],
           spoofingConfig = None \<rparr>"
proof -
  let ?e1 = "\<lparr> tf_ready = None, fetch_languageLabels = ResponseJson [''es'', ''en''],
          fetch_spoofingConfig = ResponseNotOk, load_language = Inl ''Failed to fetch'',
          load_accent = Inl ''404'', load_spoofing = Inl ''404'' \<rparr>"
  let ?e2 = "\<lparr> tf_ready = None, fetch_languageLabels = ResponseJson [''es'', ''en''],
          fetch_spoofingConfig = ResponseNotOk,
          load_language = Inr (LayersModel ''/models/language/model.json''),
          load_accent = Inl ''404'',
          load_spoofing = Inr (LayersModel ''/models/spoofing/model.json'') \<rparr>"
  have n: "\<not> modelsLoaded initial_registry" by (simp add: initial_registry_def)
  have r1: "tf_ready ?e1 = None" and r2: "tf_ready ?e2 = None" by simp_all
  from failed_required_load [OF n r1] failed_required_load [OF n r2] n show ?thesis
    by (simp add: loadModels_def initial_registry_def loadLabels_def loadSpoofingConfig_def
        outer_catch_def)
qed

end
